theory Spec2Isabelle
  imports Complex_Main
begin

section \<open>Data Quality Profiler and Anomaly Detection (04_data_analysis_python.py)\<close>

text \<open>
  A shallow embedding of the profiling script. A pandas DataFrame is a list of index
  labels and an ordered list of named columns; a cell is null, an integer, a float, a
  string or a timestamp. Floating-point numbers are idealised as real numbers, with
  NaN as the null cell (the way pandas stores a missing float) and no infinite values;
  rounding to a number of decimals is round-half-to-even, as numpy and Python do it.
  Every exception the script can raise is a value of \<open>error\<close>; \<open>NoObject\<close>
  stands for a reference to no frame, which no call of the script passes. Titles use an
  ASCII hyphen where the script prints a dash.
\<close>

subsection \<open>Cells, errors and floats\<close>

datatype cell = Null | Inum int | Num real | Str string | Stamp int

datatype error =
    KeyError string
  | TypeError
  | ValueError
  | ZeroDivisionError
  | NoObject nat

definition bind_e :: "error + 'a \<Rightarrow> ('a \<Rightarrow> error + 'b) \<Rightarrow> error + 'b" where
  "bind_e m f = (case m of Inl e \<Rightarrow> Inl e | Inr x \<Rightarrow> f x)"

fun isnull :: "cell \<Rightarrow> bool" where
  "isnull Null = True"
| "isnull _ = False"

text \<open>The numeric view of a cell: \<open>None\<close> is NaN; a string or a timestamp is not a number.\<close>

fun as_float :: "cell \<Rightarrow> error + real option" where
  "as_float Null = Inr None"
| "as_float (Inum i) = Inr (Some (real_of_int i))"
| "as_float (Num x) = Inr (Some x)"
| "as_float (Str s) = Inl TypeError"
| "as_float (Stamp t) = Inl TypeError"

fun floats :: "cell list \<Rightarrow> error + real option list" where
  "floats [] = Inr []"
| "floats (c # cs) =
     bind_e (as_float c) (\<lambda>x. bind_e (floats cs) (\<lambda>xs. Inr (x # xs)))"

fun of_float :: "real option \<Rightarrow> cell" where
  "of_float None = Null"
| "of_float (Some x) = Num x"

text \<open>Round half to even, and rounding to \<open>d\<close> decimals (\<open>round(x, d)\<close>, \<open>.round(d)\<close>).\<close>

definition rint :: "real \<Rightarrow> int" where
  "rint y =
     (let f = \<lfloor>y\<rfloor>; r = y - real_of_int f
      in if r < 1 / 2 then f else if 1 / 2 < r then f + 1 else if even f then f else f + 1)"

definition round_to :: "nat \<Rightarrow> real \<Rightarrow> real" where
  "round_to d x = real_of_int (rint (x * 10 ^ d)) / 10 ^ d"

definition round_f :: "nat \<Rightarrow> real option \<Rightarrow> real option" where
  "round_f d x = map_option (round_to d) x"

text \<open>\<open>Series.mean()\<close> and \<open>Series.std()\<close> (sample standard deviation, ddof = 1) skip NaN.\<close>

definition present :: "real option list \<Rightarrow> real list" where
  "present xs = concat (map (\<lambda>x. case x of None \<Rightarrow> [] | Some v \<Rightarrow> [v]) xs)"

definition mean_f :: "real option list \<Rightarrow> real option" where
  "mean_f xs =
     (let vs = present xs
      in if vs = [] then None else Some (sum_list vs / real (length vs)))"

definition std_f :: "real option list \<Rightarrow> real option" where
  "std_f xs =
     (let vs = present xs
      in if length vs < 2 then None
         else (let m = sum_list vs / real (length vs)
               in Some (sqrt (sum_list (map (\<lambda>v. (v - m)\<^sup>2) vs) / real (length vs - 1)))))"

subsection \<open>DataFrames\<close>

record dataframe =
  index :: "cell list"
  cols :: "(string \<times> cell list) list"

definition wf :: "dataframe \<Rightarrow> bool" where
  "wf df = list_all (\<lambda>(n, s). length s = length (index df)) (cols df)"

definition len :: "dataframe \<Rightarrow> nat" where
  "len df = length (index df)"

definition columns :: "dataframe \<Rightarrow> string list" where
  "columns df = map fst (cols df)"

text \<open>\<open>df.empty\<close>: no rows or no columns.\<close>

definition empty_df :: "dataframe \<Rightarrow> bool" where
  "empty_df df = (index df = [] \<or> cols df = [])"

text \<open>\<open>df[c]\<close> raises KeyError for a column that is not there.\<close>

definition getitem :: "dataframe \<Rightarrow> string \<Rightarrow> error + cell list" where
  "getitem df c = (case map_of (cols df) c of None \<Rightarrow> Inl (KeyError c) | Some s \<Rightarrow> Inr s)"

text \<open>\<open>df[c] = s\<close> replaces the column or appends it; the length must be the frame's.\<close>

definition setitem :: "dataframe \<Rightarrow> string \<Rightarrow> cell list \<Rightarrow> error + dataframe" where
  "setitem df c s =
     (if length s \<noteq> length (index df) then Inl ValueError
      else if c \<in> set (columns df)
        then Inr (df\<lparr>cols := map (\<lambda>(n, v). if n = c then (n, s) else (n, v)) (cols df)\<rparr>)
        else Inr (df\<lparr>cols := cols df @ [(c, s)]\<rparr>))"

text \<open>\<open>df[mask]\<close>: the rows whose mask entry is true, labels kept.\<close>

definition pick :: "bool list \<Rightarrow> 'a list \<Rightarrow> 'a list" where
  "pick msk xs = map snd (filter fst (zip msk xs))"

definition filter_rows :: "bool list \<Rightarrow> dataframe \<Rightarrow> dataframe" where
  "filter_rows msk df =
     \<lparr>index = pick msk (index df), cols = map (\<lambda>(n, v). (n, pick msk v)) (cols df)\<rparr>"

text \<open>\<open>df[[c1, ..., ck]]\<close>: the named columns in that order, KeyError for a missing one.\<close>

fun select_cols :: "dataframe \<Rightarrow> string list \<Rightarrow> error + (string \<times> cell list) list" where
  "select_cols df [] = Inr []"
| "select_cols df (c # cs) =
     bind_e (getitem df c) (\<lambda>s. bind_e (select_cols df cs) (\<lambda>r. Inr ((c, s) # r)))"

definition select :: "dataframe \<Rightarrow> string list \<Rightarrow> error + dataframe" where
  "select df cs = bind_e (select_cols df cs) (\<lambda>r. Inr \<lparr>index = index df, cols = r\<rparr>)"

text \<open>A comparison \<open>a > b\<close> of two numeric series; a comparison with NaN is false.\<close>

fun gt_f :: "real option \<Rightarrow> real option \<Rightarrow> bool" where
  "gt_f (Some x) (Some y) = (y < x)"
| "gt_f _ _ = False"

definition gt_series :: "cell list \<Rightarrow> cell list \<Rightarrow> error + bool list" where
  "gt_series a b =
     bind_e (floats a) (\<lambda>xs. bind_e (floats b) (\<lambda>ys. Inr (map2 gt_f xs ys)))"

subsection \<open>Section 2: the SLA columns of the healthcare frame (lines 57, 80-84)\<close>

definition sla_map :: "string \<Rightarrow> int option" where
  "sla_map = [''P1'' \<mapsto> 4, ''P2'' \<mapsto> 24, ''P3'' \<mapsto> 72]"

text \<open>
  \<open>Series.map(dict)\<close>: a value that is not a key of the dictionary maps to NaN, and a
  result with a NaN in it is a float series.
\<close>

fun look :: "(string \<Rightarrow> int option) \<Rightarrow> cell \<Rightarrow> int option" where
  "look m (Str s) = m s"
| "look m _ = None"

definition series_map :: "(string \<Rightarrow> int option) \<Rightarrow> cell list \<Rightarrow> cell list" where
  "series_map m s =
     (let ts = map (look m) s
      in if None \<in> set ts
         then map (\<lambda>t. case t of None \<Rightarrow> Null | Some i \<Rightarrow> Num (real_of_int i)) ts
         else map (\<lambda>t. case t of None \<Rightarrow> Null | Some i \<Rightarrow> Inum i) ts)"

definition sla_label :: "bool \<Rightarrow> cell" where
  "sla_label b = Str (if b then ''SLA_BREACH'' else ''WITHIN_SLA'')"

text \<open>
  Lines 81-84, applied to the frame \<open>pd.DataFrame(hc_data)\<close>:
  \<open>df_hc["sla_threshold"] = df_hc["priority"].map(sla_map)\<close> and
  \<open>df_hc["sla_status"] = np.where(resolution_hours > sla_threshold, ...)\<close>.
\<close>

definition add_sla_columns :: "dataframe \<Rightarrow> error + dataframe" where
  "add_sla_columns df =
     bind_e (getitem df ''priority'') (\<lambda>p.
     bind_e (setitem df ''sla_threshold'' (series_map sla_map p)) (\<lambda>df1.
     bind_e (getitem df1 ''resolution_hours'') (\<lambda>h.
     bind_e (getitem df1 ''sla_threshold'') (\<lambda>t.
     bind_e (gt_series h t) (\<lambda>m.
     setitem df1 ''sla_status'' (map sla_label m))))))"

subsection \<open>Sorting, value counts and group-by\<close>

text \<open>A stable insertion sort by a comparison function.\<close>

fun insert_by :: "('a \<Rightarrow> 'a \<Rightarrow> bool) \<Rightarrow> 'a \<Rightarrow> 'a list \<Rightarrow> 'a list" where
  "insert_by le x [] = [x]"
| "insert_by le x (y # ys) = (if le x y then x # y # ys else y # insert_by le x ys)"

fun sort_by :: "('a \<Rightarrow> 'a \<Rightarrow> bool) \<Rightarrow> 'a list \<Rightarrow> 'a list" where
  "sort_by le [] = []"
| "sort_by le (x # xs) = insert_by le x (sort_by le xs)"

text \<open>Strings compare by code point, as Python's do.\<close>

fun str_le :: "string \<Rightarrow> string \<Rightarrow> bool" where
  "str_le [] b = True"
| "str_le (x # a) [] = False"
| "str_le (x # a) (y # b) =
     ((of_char x :: nat) < of_char y \<or> (x = y \<and> str_le a b))"

fun rank_val :: "cell \<Rightarrow> real" where
  "rank_val (Inum i) = real_of_int i"
| "rank_val (Num x) = x"
| "rank_val (Stamp t) = real_of_int t"
| "rank_val _ = 0"

text \<open>
  The order of group keys: numbers by value, strings by code point, numbers before
  strings. The script groups by string columns only.
\<close>

fun cell_le :: "cell \<Rightarrow> cell \<Rightarrow> bool" where
  "cell_le (Str a) (Str b) = str_le a b"
| "cell_le (Str a) b = False"
| "cell_le a (Str b) = True"
| "cell_le a b = (rank_val a \<le> rank_val b)"

text \<open>The distinct values of a list, in the order of their first appearance.\<close>

fun uniq :: "'a list \<Rightarrow> 'a list" where
  "uniq [] = []"
| "uniq (x # xs) = x # filter (\<lambda>y. y \<noteq> x) (uniq xs)"

text \<open>
  \<open>Series.value_counts()\<close>: the non-null values with the number of their occurrences,
  the most frequent first; values that occur equally often keep the order of their first
  appearance.
\<close>

definition value_counts :: "cell list \<Rightarrow> (cell \<times> cell) list" where
  "value_counts s =
     (let vs = filter (\<lambda>c. \<not> isnull c) s
      in map (\<lambda>(v, k). (v, Inum (int k)))
           (sort_by (\<lambda>a b. snd b \<le> snd a)
              (map (\<lambda>v. (v, length (filter (\<lambda>c. c = v) vs))) (uniq vs))))"

text \<open>The keys of \<open>df.groupby(c)\<close>: the non-null values of the column, sorted.\<close>

definition group_keys :: "cell list \<Rightarrow> cell list" where
  "group_keys k = sort_by cell_le (uniq (filter (\<lambda>c. \<not> isnull c) k))"

text \<open>The rows of one group: \<open>df[df[c] == g]\<close>.\<close>

definition group_of :: "dataframe \<Rightarrow> cell list \<Rightarrow> cell \<Rightarrow> dataframe" where
  "group_of df k g = filter_rows (map (\<lambda>c. c = g) k) df"

fun map_e :: "('a \<Rightarrow> error + 'b) \<Rightarrow> 'a list \<Rightarrow> error + 'b list" where
  "map_e f [] = Inr []"
| "map_e f (x # xs) = bind_e (f x) (\<lambda>y. bind_e (map_e f xs) (\<lambda>ys. Inr (y # ys)))"

definition field :: "(string \<times> cell) list \<Rightarrow> string \<Rightarrow> cell" where
  "field ser n = (case map_of ser n of None \<Rightarrow> Null | Some v \<Rightarrow> v)"

text \<open>
  \<open>df.groupby(c).apply(f)\<close> for an \<open>f\<close> that returns a \<open>pd.Series\<close>: one row per
  group, labelled by the key, one column per entry of the series. With no group at all
  pandas returns an empty frame with the columns of \<open>df\<close>.
\<close>

definition groupby_apply ::
  "dataframe \<Rightarrow> string \<Rightarrow> (dataframe \<Rightarrow> error + (string \<times> cell) list) \<Rightarrow> error + dataframe" where
  "groupby_apply df c f =
     bind_e (getitem df c) (\<lambda>k.
     bind_e (map_e (\<lambda>g. f (group_of df k g)) (group_keys k)) (\<lambda>sers.
       (case sers of
          [] \<Rightarrow> Inr \<lparr>index = [], cols = map (\<lambda>(n, v). (n, [])) (cols df)\<rparr>
        | ser # _ \<Rightarrow>
            Inr \<lparr>index = group_keys k,
                 cols = map (\<lambda>n. (n, map (\<lambda>r. field r n) sers)) (map fst ser)\<rparr>)))"

text \<open>The same for an \<open>f\<close> that returns a number: a series labelled by the keys.\<close>

definition groupby_scalar ::
  "dataframe \<Rightarrow> string \<Rightarrow> (dataframe \<Rightarrow> error + cell) \<Rightarrow> error + (cell \<times> cell) list" where
  "groupby_scalar df c f =
     bind_e (getitem df c) (\<lambda>k.
     bind_e (map_e (\<lambda>g. f (group_of df k g)) (group_keys k)) (\<lambda>vs.
       Inr (zip (group_keys k) vs)))"

text \<open>
  \<open>df.sort_values(c, ascending=False)\<close> on a numeric column: the rows by descending
  key, NaN last. pandas does not fix the order of rows with equal keys; here they keep
  their order.
\<close>

fun ge_desc :: "real option \<Rightarrow> real option \<Rightarrow> bool" where
  "ge_desc a None = True"
| "ge_desc None (Some y) = False"
| "ge_desc (Some x) (Some y) = (y \<le> x)"

definition reorder :: "real option list \<Rightarrow> 'a list \<Rightarrow> 'a list" where
  "reorder ks xs = map snd (sort_by (\<lambda>a b. ge_desc (fst a) (fst b)) (zip ks xs))"

definition sort_values_desc :: "dataframe \<Rightarrow> string \<Rightarrow> error + dataframe" where
  "sort_values_desc df c =
     bind_e (getitem df c) (\<lambda>k.
     bind_e (floats k) (\<lambda>ks.
       Inr \<lparr>index = reorder ks (index df),
            cols = map (\<lambda>(n, v). (n, reorder ks v)) (cols df)\<rparr>))"

subsection \<open>The world: objects, standard output, files\<close>

text \<open>
  A line of output is kept as the format string of the \<open>print\<close> call and the values
  put into it, or as the frame or series whose \<open>to_string()\<close> is printed (with or without
  its index). The figure handed to matplotlib is kept as its data.
\<close>

datatype out =
    Text string
  | Fmt string "cell list"
  | Frame bool dataframe
  | Ser "(cell \<times> cell) list"

record chart =
  hist_values :: "cell list"
  mean_line :: cell
  pie_counts :: "(cell \<times> cell) list"
  sla_bars :: "(cell \<times> cell) list"
  team_bars :: "(cell \<times> cell) list"

text \<open>
  DataFrames are objects: a variable holds a reference into \<open>heap\<close>. \<open>files\<close> is the
  file system, \<open>shown\<close> what \<open>plt.show()\<close> displayed, \<open>today\<close> the clock's reading.
\<close>

record world =
  heap :: "dataframe list"
  stdout :: "out list"
  files :: "string \<Rightarrow> chart option"
  shown :: "chart list"
  today :: int

text \<open>
  A statement runs in a world and ends in a world, with a value or with the exception it
  raised; what was printed or written before the exception stays.
\<close>

type_synonym 'a prog = "world \<Rightarrow> (error + 'a) \<times> world"

definition ret :: "'a \<Rightarrow> 'a prog" where
  "ret x w = (Inr x, w)"

definition lift_e :: "error + 'a \<Rightarrow> 'a prog" where
  "lift_e r w = (r, w)"

definition bind_m :: "'a prog \<Rightarrow> ('a \<Rightarrow> 'b prog) \<Rightarrow> 'b prog" where
  "bind_m m f w = (case m w of (Inl e, w') \<Rightarrow> (Inl e, w') | (Inr x, w') \<Rightarrow> f x w')"

definition seq_m :: "unit prog \<Rightarrow> 'b prog \<Rightarrow> 'b prog" where
  "seq_m m k = bind_m m (\<lambda>u. k)"

definition print_out :: "out \<Rightarrow> unit prog" where
  "print_out x w = (Inr (), w\<lparr>stdout := stdout w @ [x]\<rparr>)"

text \<open>The world after some more lines of output, for stating what a run printed.\<close>

definition say :: "out list \<Rightarrow> world \<Rightarrow> world" where
  "say xs w = w\<lparr>stdout := stdout w @ xs\<rparr>"

definition deref :: "nat \<Rightarrow> dataframe prog" where
  "deref r w = (if r < length (heap w) then Inr (heap w ! r) else Inl (NoObject r), w)"

text \<open>\<open>df.copy()\<close>: a new object with the same contents.\<close>

definition copy_df :: "nat \<Rightarrow> nat prog" where
  "copy_df r = bind_m (deref r) (\<lambda>df w. (Inr (length (heap w)), w\<lparr>heap := heap w @ [df]\<rparr>))"

text \<open>\<open>df[c] = s\<close> on the object that \<open>r\<close> refers to.\<close>

definition setitem_ref :: "nat \<Rightarrow> string \<Rightarrow> cell list \<Rightarrow> unit prog" where
  "setitem_ref r c s =
     bind_m (deref r) (\<lambda>df.
     bind_m (lift_e (setitem df c s)) (\<lambda>df' w.
       (Inr (), w\<lparr>heap := (heap w)[r := df']\<rparr>)))"

text \<open>\<open>"=" * 60\<close>, and the line \<open>print("\\n" + "=" * 60)\<close> prints.\<close>

definition rule60 :: string where
  "rule60 = replicate 60 (CHR ''='')"

definition banner :: out where
  "banner = Text (CHR 0x0A # rule60)"

subsection \<open>Module 1: data profiling (lines 91-108)\<close>

text \<open>
  Lines 98-101: \<open>df.isnull().sum()\<close>, \<open>(df.isnull().mean() * 100).round(2)\<close>, the frame
  of both labelled by the column names, and its rows with \<open>null_count > 0\<close>.
\<close>

definition null_count :: "cell list \<Rightarrow> nat" where
  "null_count s = length (filter isnull s)"

definition null_pct :: "cell list \<Rightarrow> real option" where
  "null_pct s =
     round_f 2 (map_option (\<lambda>m. m * 100)
       (mean_f (map (\<lambda>c. Some (if isnull c then 1 else 0)) s)))"

definition null_report :: "dataframe \<Rightarrow> dataframe" where
  "null_report df =
     (let null_summary = map (\<lambda>(n, s). null_count s) (cols df);
          pct = map (\<lambda>(n, s). null_pct s) (cols df);
          report = \<lparr>index = map Str (columns df),
                    cols = [(''null_count'', map (\<lambda>k. Inum (int k)) null_summary),
                            (''null_pct'', map of_float pct)]\<rparr>
      in filter_rows (map (\<lambda>k. 0 < k) null_summary) report)"

definition profile_dataframe :: "nat \<Rightarrow> string \<Rightarrow> unit prog" where
  "profile_dataframe r domain_name =
     bind_m (deref r) (\<lambda>df.
     seq_m (print_out banner) (
     seq_m (print_out (Fmt ''DATA QUALITY PROFILE - {}'' [Str domain_name])) (
     bind_m (\<lambda>w. (Inr (today w), w)) (\<lambda>now.
     seq_m (print_out (Fmt ''Run Date : {}'' [Stamp now])) (
     seq_m (print_out (Fmt ''Records  : {:,}'' [Inum (int (len df))])) (
     seq_m (print_out (Text rule60)) (
     seq_m (print_out (Text (CHR 0x0A # ''-- NULL / MISSING VALUES --''))) (
     seq_m (print_out (if empty_df (null_report df) then Text ''  No null values detected.''
                       else Frame True (null_report df))) (
     seq_m (print_out (Text (CHR 0x0A # ''-- RECORD COUNT BY CATEGORY --''))) (
     bind_m (lift_e (getitem df
        (if ''program_code'' \<in> set (columns df) then ''program_code'' else ''case_type''))) (\<lambda>cat.
     print_out (Ser (value_counts cat)))))))))))))"

subsection \<open>Module 2: anomaly detection (lines 115-130)\<close>

text \<open>
  One entry of \<open>((df[column] - mean) / std).round(2)\<close>. NaN in the value, the mean or
  the deviation gives NaN. A deviation of zero gives NaN as well: then every value of the
  column equals the mean, and 0 / 0 is NaN.
\<close>

fun z_of :: "real option \<Rightarrow> real option \<Rightarrow> real option \<Rightarrow> real option" where
  "z_of (Some m) (Some s) (Some v) = (if s = 0 then None else Some (round_to 2 ((v - m) / s)))"
| "z_of m s v = None"

text \<open>One entry of \<open>df["z_score"].abs() > threshold\<close>.\<close>

definition flagged :: "real \<Rightarrow> real option \<Rightarrow> bool" where
  "flagged threshold z = gt_f (map_option abs z) (Some threshold)"

text \<open>
  Lines 120-125: the mean, the deviation and the frame \<open>anomalies\<close>. The z-scores are
  written to a copy of the frame.
\<close>

definition find_anomalies ::
  "nat \<Rightarrow> string \<Rightarrow> real \<Rightarrow> (real option \<times> real option \<times> dataframe) prog" where
  "find_anomalies r column threshold =
     bind_m (deref r) (\<lambda>df0.
     bind_m (lift_e (getitem df0 column)) (\<lambda>col.
     bind_m (lift_e (floats col)) (\<lambda>xs.
     bind_m (ret (mean_f xs)) (\<lambda>mean.
     bind_m (ret (std_f xs)) (\<lambda>std.
     bind_m (copy_df r) (\<lambda>r'.
     bind_m (deref r') (\<lambda>df1.
     bind_m (lift_e (getitem df1 column)) (\<lambda>col1.
     bind_m (lift_e (floats col1)) (\<lambda>xs1.
     seq_m (setitem_ref r' ''z_score'' (map (\<lambda>v. of_float (z_of mean std v)) xs1)) (
     bind_m (deref r') (\<lambda>df.
     bind_m (lift_e (getitem df ''z_score'')) (\<lambda>zcol.
     bind_m (lift_e (floats zcol)) (\<lambda>zs.
     ret (mean, std, filter_rows (map (flagged threshold) zs) df))))))))))))))"

definition detect_amount_anomalies :: "nat \<Rightarrow> string \<Rightarrow> real \<Rightarrow> unit prog" where
  "detect_amount_anomalies r column threshold =
     seq_m (print_out banner) (
     seq_m (print_out (Fmt ''ANOMALY DETECTION - {} (|Z-score| > {})'' [Str column, Num threshold])) (
     seq_m (print_out (Text rule60)) (
     bind_m (find_anomalies r column threshold) (\<lambda>(mean, std, anomalies).
     seq_m (print_out (Fmt ''  Mean: {:,.2f}  |  Std Dev: {:,.2f}'' [of_float mean, of_float std])) (
     seq_m (print_out (Fmt ''  Anomalies found: {}\<newline>'' [Inum (int (len anomalies))])) (
     if \<not> empty_df anomalies
     then bind_m (lift_e (select anomalies
            [''transaction_id'', ''partner_id'', ''program_code'', column, ''z_score'', ''status''])) (\<lambda>t.
          print_out (Frame False t))
     else ret ()))))))"

subsection \<open>Module 3: SLA breach analysis (lines 137-166)\<close>

definition is_breach :: "cell \<Rightarrow> bool" where
  "is_breach c = (c = Str ''SLA_BREACH'')"

text \<open>\<open>round(100.0 * (x["sla_status"] == "SLA_BREACH").sum() / len(x), 1)\<close>\<close>

definition breach_pct :: "nat \<Rightarrow> nat \<Rightarrow> real" where
  "breach_pct b n = round_to 1 (100 * real b / real n)"

text \<open>The series that the lambda of lines 149-154 returns for the rows \<open>x\<close> of a group.\<close>

definition priority_row :: "dataframe \<Rightarrow> error + (string \<times> cell) list" where
  "priority_row x =
     bind_e (getitem x ''sla_status'') (\<lambda>st.
     bind_e (getitem x ''resolution_hours'') (\<lambda>h.
     bind_e (floats h) (\<lambda>hs.
       Inr [(''total'', Num (real (len x))),
            (''breaches'', Num (real (length (filter is_breach st)))),
            (''breach_pct'', Num (breach_pct (length (filter is_breach st)) (len x))),
            (''avg_res_hours'', of_float (round_f 1 (mean_f hs)))])))"

text \<open>The series that the lambda of lines 160-164 returns.\<close>

definition team_row :: "dataframe \<Rightarrow> error + (string \<times> cell) list" where
  "team_row x =
     bind_e (getitem x ''sla_status'') (\<lambda>st.
       Inr [(''total'', Num (real (len x))),
            (''breaches'', Num (real (length (filter is_breach st)))),
            (''breach_pct'', Num (breach_pct (length (filter is_breach st)) (len x)))])"

definition priority_summary :: "dataframe \<Rightarrow> error + dataframe" where
  "priority_summary df = groupby_apply df ''priority'' priority_row"

definition team_summary :: "dataframe \<Rightarrow> error + dataframe" where
  "team_summary df =
     bind_e (groupby_apply df ''assigned_team'' team_row) (\<lambda>t. sort_values_desc t ''breach_pct'')"

definition analyze_sla_breaches :: "nat \<Rightarrow> unit prog" where
  "analyze_sla_breaches r =
     bind_m (deref r) (\<lambda>df.
     seq_m (print_out banner) (
     seq_m (print_out (Text ''SLA BREACH ANALYSIS - Healthcare Cases'')) (
     seq_m (print_out (Text rule60)) (
     bind_m (lift_e (getitem df ''sla_status'')) (\<lambda>st.
     bind_m (ret (filter_rows (map is_breach st) df)) (\<lambda>breaches.
     seq_m (print_out (Fmt ''  Total Cases  : {:,}'' [Inum (int (len df))])) (
     seq_m (lift_e (if len df = 0 then Inl ZeroDivisionError else Inr ())) (
     seq_m (print_out (Fmt ''  SLA Breaches : {:,} ({:.1f}%)''
              [Inum (int (len breaches)), Num (real (len breaches) / real (len df) * 100)])) (
     seq_m (print_out (Text (CHR 0x0A # ''  Breach Rate by Priority:''))) (
     bind_m (lift_e (priority_summary df)) (\<lambda>ps.
     seq_m (print_out (Frame True ps)) (
     seq_m (print_out (Text (CHR 0x0A # ''  Breach Rate by Team:''))) (
     bind_m (lift_e (team_summary df)) (\<lambda>ts.
     print_out (Frame True ts)))))))))))))))"

subsection \<open>Module 4: settlement gap analysis (lines 173-183)\<close>

definition analyze_settlement_gaps :: "nat \<Rightarrow> int \<Rightarrow> unit prog" where
  "analyze_settlement_gaps r threshold_days =
     bind_m (deref r) (\<lambda>df.
     seq_m (print_out banner) (
     seq_m (print_out (Fmt ''SETTLEMENT GAP ANALYSIS (threshold: {} days)'' [Inum threshold_days])) (
     seq_m (print_out (Text rule60)) (
     bind_m (lift_e (getitem df ''days_to_settle'')) (\<lambda>d.
     bind_m (lift_e (floats d)) (\<lambda>ds.
     bind_m (ret (filter_rows (map (\<lambda>x. gt_f x (Some (real_of_int threshold_days))) ds) df)) (\<lambda>breaches.
     seq_m (print_out (Fmt ''  Total Records     : {:,}'' [Inum (int (len df))])) (
     seq_m (lift_e (if len df = 0 then Inl ZeroDivisionError else Inr ())) (
     seq_m (print_out (Fmt ''  Gap Breaches      : {:,} ({:.1f}%)''
              [Inum (int (len breaches)), Num (real (len breaches) / real (len df) * 100)])) (
     seq_m (print_out (Fmt ''  Avg Gap (all)     : {:.1f} days'' [of_float (mean_f ds)])) (
     if \<not> empty_df breaches
     then bind_m (lift_e (getitem breaches ''days_to_settle'')) (\<lambda>b.
          bind_m (lift_e (floats b)) (\<lambda>bs.
          print_out (Fmt ''  Avg Gap (breaches): {:.1f} days'' [of_float (mean_f bs)])))
     else ret ())))))))))))"

subsection \<open>Module 5: the dashboard (lines 190-237)\<close>

text \<open>
  The figure is the data of its four panels: the histogram of the incentive amounts with
  the line at their mean, the pie of the status counts, the bars of the breach rate by
  priority (reindexed to P1, P2, P3) and the bars of the mean resolution hours by team.
  matplotlib's rendering is outside the model.
\<close>

definition reindex :: "(cell \<times> cell) list \<Rightarrow> cell list \<Rightarrow> (cell \<times> cell) list" where
  "reindex ser labels =
     map (\<lambda>l. (l, case map_of ser l of None \<Rightarrow> Null | Some v \<Rightarrow> v)) labels"

definition breach_rate :: "dataframe \<Rightarrow> error + cell" where
  "breach_rate x =
     bind_e (getitem x ''sla_status'') (\<lambda>st.
       Inr (Num (breach_pct (length (filter is_breach st)) (len x))))"

definition avg_hours :: "dataframe \<Rightarrow> error + cell" where
  "avg_hours x =
     bind_e (getitem x ''resolution_hours'') (\<lambda>h.
     bind_e (floats h) (\<lambda>hs. Inr (of_float (round_f 1 (mean_f hs)))))"

text \<open>\<open>df.groupby("assigned_team")["resolution_hours"].mean().round(1)\<close>\<close>

definition team_hours :: "dataframe \<Rightarrow> error + (cell \<times> cell) list" where
  "team_hours df =
     bind_e (getitem df ''assigned_team'') (\<lambda>k.
     bind_e (getitem df ''resolution_hours'') (\<lambda>h.
       groupby_scalar df ''assigned_team'' avg_hours))"

definition png :: string where
  "png = ''production_support_dashboard.png''"

definition savefig :: "string \<Rightarrow> chart \<Rightarrow> unit prog" where
  "savefig name fig w = (Inr (), w\<lparr>files := (files w)(name \<mapsto> fig)\<rparr>)"

definition show_fig :: "chart \<Rightarrow> unit prog" where
  "show_fig fig w = (Inr (), w\<lparr>shown := shown w @ [fig]\<rparr>)"

definition generate_dashboard :: "nat \<Rightarrow> nat \<Rightarrow> unit prog" where
  "generate_dashboard rf rh =
     bind_m (deref rf) (\<lambda>df_fin.
     bind_m (deref rh) (\<lambda>df_hc.
     bind_m (lift_e (getitem df_fin ''incentive_amount'')) (\<lambda>amt.
     bind_m (lift_e (floats amt)) (\<lambda>xs.
     bind_m (lift_e (getitem df_fin ''status'')) (\<lambda>st.
     bind_m (lift_e (groupby_scalar df_hc ''priority'' breach_rate)) (\<lambda>sla_summary.
     bind_m (lift_e (team_hours df_hc)) (\<lambda>team_avg.
     bind_m (ret \<lparr>hist_values = amt, mean_line = of_float (mean_f xs),
                  pie_counts = value_counts st,
                  sla_bars = reindex sla_summary [Str ''P1'', Str ''P2'', Str ''P3''],
                  team_bars = team_avg\<rparr>) (\<lambda>fig.
     seq_m (savefig png fig) (
     seq_m (print_out (Text (CHR 0x0A # ''  Chart saved: production_support_dashboard.png''))) (
     show_fig fig))))))))))"

subsection \<open>Main (lines 244-259)\<close>

definition main :: "nat \<Rightarrow> nat \<Rightarrow> unit prog" where
  "main df_fin df_hc =
     seq_m (profile_dataframe df_fin ''Financial Services - Incentive Transactions'') (
     seq_m (detect_amount_anomalies df_fin ''incentive_amount'' 3) (
     seq_m (analyze_settlement_gaps df_fin 5) (
     seq_m (profile_dataframe df_hc ''Healthcare - Customer Cases'') (
     seq_m (analyze_sla_breaches df_hc) (
     seq_m (generate_dashboard df_fin df_hc) (
     seq_m (print_out banner) (
     seq_m (print_out (Text ''REPORT COMPLETE'')) (
     print_out (Text rule60)))))))))"

section \<open>The frames of the script and the notions of the specification\<close>

subsection \<open>The schema of the two frames\<close>

text \<open>
  What the script's own frames satisfy (lines 29-48 and 65-84): the columns that the
  modules read are there, the columns they compute with are numeric, there is at least
  one row, and at least one case has a team.
\<close>

definition has :: "dataframe \<Rightarrow> string \<Rightarrow> bool" where
  "has df c = (c \<in> set (columns df))"

definition numeric :: "dataframe \<Rightarrow> string \<Rightarrow> bool" where
  "numeric df c =
     (case getitem df c of
        Inl e \<Rightarrow> False
      | Inr s \<Rightarrow> (case floats s of Inl e \<Rightarrow> False | Inr xs \<Rightarrow> True))"




subsection \<open>Percentile thresholds, in the specification's words\<close>



subsection \<open>The rows of a group, in the specification's words\<close>

text \<open>
  For a key column \<open>k\<close>, a status column \<open>st\<close> and the hours \<open>hs\<close>: the number of
  rows whose key is \<open>g\<close>, the number of those with the status "SLA_BREACH", and their
  hours.
\<close>

definition group_total :: "cell list \<Rightarrow> cell \<Rightarrow> nat" where
  "group_total k g = length (filter (\<lambda>c. c = g) k)"

definition group_breaches :: "cell list \<Rightarrow> cell list \<Rightarrow> cell \<Rightarrow> nat" where
  "group_breaches k st g =
     length (filter (\<lambda>(c, s). c = g \<and> s = Str ''SLA_BREACH'') (zip k st))"

definition group_hours :: "cell list \<Rightarrow> real option list \<Rightarrow> cell \<Rightarrow> real option list" where
  "group_hours k hs g = map snd (filter (\<lambda>(c, x). c = g) (zip k hs))"

definition group_pct :: "cell list \<Rightarrow> cell list \<Rightarrow> cell \<Rightarrow> real" where
  "group_pct k st g =
     round_to 1 (100 * real (group_breaches k st g) / real (group_total k g))"

section \<open>Example inputs\<close>

text \<open>A healthcare frame of three cases, before the SLA columns are added.\<close>

definition hc0 :: dataframe where
  "hc0 = \<lparr>index = [Inum 0, Inum 1, Inum 2],
          cols = [(''case_type'', [Str ''Billing'', Str ''Billing'', Str ''Software Issue'']),
                  (''priority'', [Str ''P1'', Str ''P2'', Str ''P3'']),
                  (''assigned_team'', [Str ''Team_Alpha'', Null, Str ''Team_Beta'']),
                  (''resolution_hours'', [Inum 5, Inum 24, Inum 10])]\<rparr>"

definition hc1 :: dataframe where
  "hc1 = hc0\<lparr>cols := cols hc0 @
     [(''sla_threshold'', [Inum 4, Inum 24, Inum 72]),
      (''sla_status'', [Str ''SLA_BREACH'', Str ''WITHIN_SLA'', Str ''WITHIN_SLA''])]\<rparr>"

text \<open>A financial frame of three transactions.\<close>

definition fin0 :: dataframe where
  "fin0 = \<lparr>index = [Inum 0, Inum 1, Inum 2],
           cols = [(''transaction_id'', [Str ''TXN00001'', Str ''TXN00002'', Str ''TXN00003'']),
                   (''partner_id'', [Str ''P001'', Null, Str ''P002'']),
                   (''program_code'', [Str ''PROG_A'', Str ''PROG_B'', Str ''PROG_A'']),
                   (''incentive_amount'', [Num 1, Num 2, Num 3]),
                   (''status'', [Str ''SETTLED'', Str ''PENDING'', Str ''SETTLED'']),
                   (''days_to_settle'', [Inum 10, Inum 20, Inum 30])]\<rparr>"


text \<open>A world that holds the financial and the healthcare frame, with nothing printed.\<close>

definition world0 :: world where
  "world0 = \<lparr>heap = [fin0, hc1], stdout = [], files = Map.empty, shown = [], today = 0\<rparr>"

section \<open>Properties\<close>

subsection \<open>Basic facts about the frame operations\<close>

lemma bind_e_Inr: "bind_e m f = Inr y \<longleftrightarrow> (\<exists>x. m = Inr x \<and> f x = Inr y)"
  by (cases m) (auto simp: bind_e_def)

lemma floats_Inr:
  "floats cs = Inr xs \<Longrightarrow>
     length xs = length cs \<and> (\<forall>i<length cs. as_float (cs ! i) = Inr (xs ! i))"
proof (induction cs arbitrary: xs)
  case Nil
  then show ?case by simp
next
  case (Cons c cs)
  then obtain x ys where x: "as_float c = Inr x" and ys: "floats cs = Inr ys" and xs: "xs = x # ys"
    by (auto simp: bind_e_Inr)
  from Cons.IH[OF ys] x xs show ?case
    by (auto simp: nth_Cons split: nat.splits)
qed

lemma index_setitem: "setitem df c s = Inr df' \<Longrightarrow> index df' = index df"
  by (auto simp: setitem_def split: if_splits)

lemma map_of_replace:
  "map_of (map (\<lambda>(n, v). if n = c then (n, s) else (n, v)) xs) c' =
     (if c' = c then (if c \<in> fst ` set xs then Some s else None) else map_of xs c')"
  by (induction xs) force+

lemma getitem_setitem:
  assumes "setitem df c s = Inr df'"
  shows "getitem df' c' = (if c' = c then Inr s else getitem df c')"
proof (cases "c \<in> set (columns df)")
  case True
  with assms have "cols df' = map (\<lambda>(n, v). if n = c then (n, s) else (n, v)) (cols df)"
    by (auto simp: setitem_def split: if_splits)
  with True show ?thesis
    by (simp add: getitem_def map_of_replace columns_def)
next
  case False
  with assms have "cols df' = cols df @ [(c, s)]"
    by (auto simp: setitem_def split: if_splits)
  moreover from False have "map_of (cols df) c = None"
    by (simp add: columns_def map_of_eq_None_iff)
  ultimately show ?thesis
    by (auto simp: getitem_def map_add_def split: option.splits)
qed

subsection \<open>The SLA status of a case\<close>

lemma series_map_length: "length (series_map m s) = length s"
  by (simp add: series_map_def Let_def)

lemma series_map_nth:
  "i < length s \<Longrightarrow>
     as_float (series_map m s ! i) = Inr (map_option real_of_int (look m (s ! i)))"
  by (auto simp: series_map_def Let_def split: option.splits)

lemma sla_label_breach: "sla_label b = Str ''SLA_BREACH'' \<longleftrightarrow> b"
  by (simp add: sla_label_def)

lemma gt_f_iff: "gt_f a b \<longleftrightarrow> (\<exists>x y. a = Some x \<and> b = Some y \<and> y < x)"
  by (cases a; cases b) auto

lemma add_sla_columns_steps:
  assumes run: "add_sla_columns df = Inr df'"
    and p: "getitem df ''priority'' = Inr p"
    and h: "getitem df ''resolution_hours'' = Inr h"
  shows "\<exists>df1 m. setitem df ''sla_threshold'' (series_map sla_map p) = Inr df1
     \<and> gt_series h (series_map sla_map p) = Inr m
     \<and> setitem df1 ''sla_status'' (map sla_label m) = Inr df'"
  using run p
  by (auto simp: add_sla_columns_def bind_e_Inr h
      getitem_setitem[where c' = "''resolution_hours''"]
      getitem_setitem[where c' = "''sla_threshold''"])

lemma hc0_run: "add_sla_columns hc0 = Inr hc1"
  by (simp add: add_sla_columns_def hc0_def hc1_def getitem_def setitem_def bind_e_def
      columns_def series_map_def sla_map_def gt_series_def sla_label_def)

text \<open>
  C2. For every row of the healthcare frame, \<open>sla_threshold\<close> is 4, 24 or 72 for the
  priority P1, P2 or P3, \<open>sla_status\<close> is "SLA_BREACH" exactly when \<open>resolution_hours\<close>
  is strictly greater than \<open>sla_threshold\<close>, and it is "WITHIN_SLA" otherwise.
\<close>

theorem sla_status_classification:
  assumes run: "add_sla_columns df = Inr df'"
    and p: "getitem df ''priority'' = Inr p"
    and h: "getitem df ''resolution_hours'' = Inr h"
    and i: "i < length (index df)"
  shows "\<exists>s t. getitem df' ''sla_status'' = Inr s \<and> getitem df' ''sla_threshold'' = Inr t
     \<and> (p ! i = Str ''P1'' \<longrightarrow> as_float (t ! i) = Inr (Some 4))
     \<and> (p ! i = Str ''P2'' \<longrightarrow> as_float (t ! i) = Inr (Some 24))
     \<and> (p ! i = Str ''P3'' \<longrightarrow> as_float (t ! i) = Inr (Some 72))
     \<and> (s ! i = Str ''SLA_BREACH'' \<longleftrightarrow>
          (\<exists>x y. as_float (h ! i) = Inr (Some x) \<and> as_float (t ! i) = Inr (Some y) \<and> y < x))
     \<and> (s ! i \<noteq> Str ''SLA_BREACH'' \<longrightarrow> s ! i = Str ''WITHIN_SLA'')"
proof -
  let ?t = "series_map sla_map p"
  from add_sla_columns_steps[OF run p h] obtain df1 m where
    df1: "setitem df ''sla_threshold'' ?t = Inr df1" and
    m: "gt_series h ?t = Inr m" and
    out: "setitem df1 ''sla_status'' (map sla_label m) = Inr df'"
    by blast
  from m obtain xs ys where xs: "floats h = Inr xs" and ys: "floats ?t = Inr ys"
    and m_eq: "m = map2 gt_f xs ys"
    by (auto simp: gt_series_def bind_e_Inr)
  have lp: "length p = length (index df)"
    using df1 by (auto simp: setitem_def series_map_length split: if_splits)
  have lm: "length m = length (index df)"
    using out index_setitem[OF df1] by (auto simp: setitem_def split: if_splits)
  have lys: "length ys = length (index df)"
    using floats_Inr[OF ys] lp by (simp add: series_map_length)
  have lxs: "i < length xs"
    using lm i by (simp add: m_eq)
  have ih: "i < length h"
    using lxs floats_Inr[OF xs] by simp
  have xi: "as_float (h ! i) = Inr (xs ! i)"
    using floats_Inr[OF xs] ih by simp
  have yi: "as_float (?t ! i) = Inr (ys ! i)"
    using floats_Inr[OF ys] i lp by (simp add: series_map_length)
  have ti: "as_float (?t ! i) = Inr (map_option real_of_int (look sla_map (p ! i)))"
    using series_map_nth i lp by simp
  have mi: "m ! i = gt_f (xs ! i) (ys ! i)"
    using lxs lys i by (simp add: m_eq)
  have s: "getitem df' ''sla_status'' = Inr (map sla_label m)"
    using getitem_setitem[OF out] by simp
  have t: "getitem df' ''sla_threshold'' = Inr ?t"
    using getitem_setitem[OF out, of "''sla_threshold''"]
      getitem_setitem[OF df1, of "''sla_threshold''"]
    by simp
  have si: "map sla_label m ! i = sla_label (m ! i)"
    using lm i by simp
  have breach: "map sla_label m ! i = Str ''SLA_BREACH'' \<longleftrightarrow>
      (\<exists>x y. as_float (h ! i) = Inr (Some x) \<and> as_float (?t ! i) = Inr (Some y) \<and> y < x)"
    unfolding si sla_label_breach mi gt_f_iff xi yi by auto
  have within:
    "map sla_label m ! i \<noteq> Str ''SLA_BREACH'' \<longrightarrow> map sla_label m ! i = Str ''WITHIN_SLA''"
    unfolding si by (simp add: sla_label_def)
  have p1: "p ! i = Str ''P1'' \<longrightarrow> as_float (?t ! i) = Inr (Some 4)"
    and p2: "p ! i = Str ''P2'' \<longrightarrow> as_float (?t ! i) = Inr (Some 24)"
    and p3: "p ! i = Str ''P3'' \<longrightarrow> as_float (?t ! i) = Inr (Some 72)"
    unfolding ti by (simp_all add: sla_map_def)
  show ?thesis
    using s t breach within p1 p2 p3 by blast
qed

theorem sla_status_classification_witness:
  "add_sla_columns hc0 = Inr hc1
   \<and> (\<exists>s t. getitem hc1 ''sla_status'' = Inr s \<and> getitem hc1 ''sla_threshold'' = Inr t
        \<and> as_float (t ! 0) = Inr (Some 4) \<and> s ! 0 = Str ''SLA_BREACH'')"
proof -
  have p: "getitem hc0 ''priority'' = Inr [Str ''P1'', Str ''P2'', Str ''P3'']"
    by (simp add: getitem_def hc0_def)
  have h: "getitem hc0 ''resolution_hours'' = Inr [Inum 5, Inum 24, Inum 10]"
    by (simp add: getitem_def hc0_def)
  have i: "0 < length (index hc0)"
    by (simp add: hc0_def)
  from sla_status_classification[OF hc0_run p h i] obtain s t where
    st: "getitem hc1 ''sla_status'' = Inr s" "getitem hc1 ''sla_threshold'' = Inr t"
    and t0: "as_float (t ! 0) = Inr (Some 4)"
    and iff: "s ! 0 = Str ''SLA_BREACH'' \<longleftrightarrow>
      (\<exists>x y. as_float ([Inum 5, Inum 24, Inum 10] ! 0) = Inr (Some x)
         \<and> as_float (t ! 0) = Inr (Some y) \<and> y < x)"
    by auto
  have "s ! 0 = Str ''SLA_BREACH''"
    unfolding iff t0 by simp
  with st t0 hc0_run show ?thesis by blast
qed

subsection \<open>Anomaly detection\<close>

lemmas prog_defs = bind_m_def seq_m_def ret_def lift_e_def print_out_def deref_def
  copy_df_def setitem_ref_def

lemma floats_of_float: "floats (map of_float zs) = Inr zs"
proof (induction zs)
  case Nil
  then show ?case by simp
next
  case (Cons z zs)
  then show ?case by (cases z) (simp_all add: bind_e_def)
qed

lemma floats_of_float_map: "floats (map (\<lambda>v. of_float (f v)) xs) = Inr (map f xs)"
  using floats_of_float[of "map f xs"] by (simp add: comp_def)

text \<open>What lines 120-125 compute, and the world they leave.\<close>

lemma find_anomalies_eq:
  "find_anomalies r column threshold w =
    (if r < length (heap w) then
       (case getitem (heap w ! r) column of
          Inl e \<Rightarrow> (Inl e, w)
        | Inr col \<Rightarrow>
           (case floats col of
              Inl e \<Rightarrow> (Inl e, w)
            | Inr xs \<Rightarrow>
               (case setitem (heap w ! r) ''z_score''
                       (map (\<lambda>v. of_float (z_of (mean_f xs) (std_f xs) v)) xs) of
                  Inl e \<Rightarrow> (Inl e, w\<lparr>heap := heap w @ [heap w ! r]\<rparr>)
                | Inr df \<Rightarrow>
                   (Inr (mean_f xs, std_f xs,
                         filter_rows
                           (map (\<lambda>v. flagged threshold (z_of (mean_f xs) (std_f xs) v)) xs) df),
                    w\<lparr>heap := heap w @ [df]\<rparr>))))
     else (Inl (NoObject r), w))"
  unfolding find_anomalies_def prog_defs
  by (auto simp: nth_append getitem_setitem floats_of_float_map comp_def split: sum.splits)

lemma find_anomalies_heap:
  "take (length (heap w)) (heap (snd (find_anomalies r column threshold w))) = heap w"
  by (simp add: find_anomalies_eq split: sum.splits)

lemma find_anomalies_frame:
  "stdout (snd (find_anomalies r column threshold w)) = stdout w
   \<and> files (snd (find_anomalies r column threshold w)) = files w
   \<and> shown (snd (find_anomalies r column threshold w)) = shown w"
  by (simp add: find_anomalies_eq split: sum.splits)

lemma detect_eq:
  "detect_amount_anomalies r column threshold w =
    (let w0 = w\<lparr>stdout := stdout w @ [banner,
                 Fmt ''ANOMALY DETECTION - {} (|Z-score| > {})'' [Str column, Num threshold],
                 Text rule60]\<rparr>
     in case find_anomalies r column threshold w0 of
          (Inl e, w1) \<Rightarrow> (Inl e, w1)
        | (Inr (mean, std, anomalies), w1) \<Rightarrow>
            (let w2 = w1\<lparr>stdout := stdout w1 @
                   [Fmt ''  Mean: {:,.2f}  |  Std Dev: {:,.2f}'' [of_float mean, of_float std],
                    Fmt ''  Anomalies found: {}\<newline>'' [Inum (int (len anomalies))]]\<rparr>
             in if empty_df anomalies then (Inr (), w2)
                else (case select anomalies [''transaction_id'', ''partner_id'', ''program_code'',
                              column, ''z_score'', ''status''] of
                        Inl e \<Rightarrow> (Inl e, w2)
                      | Inr t \<Rightarrow> (Inr (), w2\<lparr>stdout := stdout w2 @ [Frame False t]\<rparr>))))"
  unfolding detect_amount_anomalies_def bind_m_def seq_m_def ret_def lift_e_def print_out_def
  by (simp add: Let_def split: sum.splits prod.splits)

lemma detect_heap:
  "take (length (heap w)) (heap (snd (detect_amount_anomalies r column threshold w))) = heap w"
proof -
  let ?w0 = "w\<lparr>stdout := stdout w @ [banner,
                 Fmt ''ANOMALY DETECTION - {} (|Z-score| > {})'' [Str column, Num threshold],
                 Text rule60]\<rparr>"
  have "take (length (heap ?w0)) (heap (snd (find_anomalies r column threshold ?w0))) = heap ?w0"
    by (rule find_anomalies_heap)
  then show ?thesis
    by (auto simp: detect_eq Let_def split: sum.splits prod.splits)
qed
lemma present_set: "v \<in> set (present xs) \<longleftrightarrow> Some v \<in> set xs"
  by (induction xs) (auto simp: present_def split: option.splits)

text \<open>
  A deviation of zero means that every value of the column is the mean, so that the
  division \<open>(v - mean) / std\<close> is 0 / 0 there.
\<close>

lemma std_zero_constant:
  assumes s: "std_f xs = Some 0" and m: "mean_f xs = Some m" and v: "Some v \<in> set xs"
  shows "v = m"
proof -
  let ?vs = "present xs"
  let ?m = "sum_list ?vs / real (length ?vs)"
  from s have n: "2 \<le> length ?vs"
    by (auto simp: std_f_def Let_def split: if_splits)
  from m have m_eq: "m = ?m"
    by (auto simp: mean_f_def Let_def split: if_splits)
  from s n have "sqrt (sum_list (map (\<lambda>v. (v - ?m)\<^sup>2) ?vs) / real (length ?vs - 1)) = 0"
    by (auto simp: std_f_def Let_def split: if_splits)
  with n have z: "sum_list (map (\<lambda>v. (v - ?m)\<^sup>2) ?vs) = 0"
    by simp
  have "\<forall>x \<in> set (map (\<lambda>v. (v - ?m)\<^sup>2) ?vs). x = 0"
    using z by (subst (asm) sum_list_nonneg_eq_0_iff) auto
  moreover from v have "v \<in> set ?vs"
    by (simp add: present_set)
  ultimately have "(v - ?m)\<^sup>2 = 0"
    by auto
  then show ?thesis
    by (simp add: m_eq)
qed


lemma len_filter_rows: "len (filter_rows msk df) = length (filter id (take (len df) msk))"
proof -
  have "\<And>ys. length (filter fst (zip msk ys)) = length (filter id (take (length ys) msk))"
  proof (induction msk)
    case Nil
    show ?case by simp
  next
    case (Cons b bs)
    show ?case by (cases ys) (use Cons in auto)
  qed
  then show ?thesis
    by (simp add: len_def filter_rows_def pick_def)
qed






text \<open>
  C9. \<open>detect_amount_anomalies\<close> never changes the frame it is given: the object that
  \<open>r\<close> refers to is the same after the call, whatever the call does, and so is every
  other object that existed before; the \<open>z_score\<close> column goes to a new object.
\<close>

theorem detect_keeps_input:
  assumes "r < length (heap w)"
  shows "heap (snd (detect_amount_anomalies r column threshold w)) ! r = heap w ! r
    \<and> take (length (heap w)) (heap (snd (detect_amount_anomalies r column threshold w))) = heap w"
proof -
  have t: "take (length (heap w)) (heap (snd (detect_amount_anomalies r column threshold w))) = heap w"
    by (rule detect_heap)
  have "take (length (heap w)) (heap (snd (detect_amount_anomalies r column threshold w))) ! r
      = heap (snd (detect_amount_anomalies r column threshold w)) ! r"
    using assms by simp
  with t show ?thesis by simp
qed

theorem detect_keeps_input_witness:
  "0 < length (heap world0)
   \<and> heap (snd (detect_amount_anomalies 0 ''incentive_amount'' 3 world0)) ! 0 = fin0
   \<and> getitem fin0 ''z_score'' = Inl (KeyError ''z_score'')"
proof -
  have r: "0 < length (heap world0)"
    by (simp add: world0_def)
  have "heap world0 ! 0 = fin0"
    by (simp add: world0_def)
  moreover have "getitem fin0 ''z_score'' = Inl (KeyError ''z_score'')"
    by (simp add: getitem_def fin0_def)
  ultimately show ?thesis
    using detect_keeps_input[OF r, of "''incentive_amount''" 3] r by simp
qed

subsection \<open>Data profiling\<close>









lemma seq_print: "seq_m (print_out x) k w = k (w\<lparr>stdout := stdout w @ [x]\<rparr>)"
  by (simp add: seq_m_def bind_m_def print_out_def)

lemma bind_deref:
  "bind_m (deref r) f w = (if r < length (heap w) then f (heap w ! r) w else (Inl (NoObject r), w))"
  by (simp add: bind_m_def deref_def)

lemma bind_lift:
  "bind_m (lift_e m) f w = (case m of Inl e \<Rightarrow> (Inl e, w) | Inr x \<Rightarrow> f x w)"
  by (cases m) (simp_all add: bind_m_def lift_e_def)

lemma seq_lift:
  "seq_m (lift_e m) k w = (case m of Inl e \<Rightarrow> (Inl e, w) | Inr x \<Rightarrow> k w)"
  by (cases m) (simp_all add: seq_m_def bind_m_def lift_e_def)

lemma bind_ret: "bind_m (ret x) f w = f x w"
  by (simp add: bind_m_def ret_def)

lemmas step_simps = seq_print bind_deref bind_lift seq_lift bind_ret

lemma profile_eq:
  "profile_dataframe r domain_name w =
    (if r < length (heap w) then
       (let df = heap w ! r;
            w1 = w\<lparr>stdout := stdout w @
                  [banner,
                   Fmt ''DATA QUALITY PROFILE - {}'' [Str domain_name],
                   Fmt ''Run Date : {}'' [Stamp (today w)],
                   Fmt ''Records  : {:,}'' [Inum (int (len df))],
                   Text rule60,
                   Text (CHR 0x0A # ''-- NULL / MISSING VALUES --''),
                   (if empty_df (null_report df) then Text ''  No null values detected.''
                    else Frame True (null_report df)),
                   Text (CHR 0x0A # ''-- RECORD COUNT BY CATEGORY --'')]\<rparr>
        in case getitem df (if ''program_code'' \<in> set (columns df) then ''program_code''
                            else ''case_type'') of
             Inl e \<Rightarrow> (Inl e, w1)
           | Inr cat \<Rightarrow> (Inr (), w1\<lparr>stdout := stdout w1 @ [Ser (value_counts cat)]\<rparr>))
     else (Inl (NoObject r), w))"
proof (cases "r < length (heap w)")
  case False
  then show ?thesis
    by (simp add: profile_dataframe_def bind_deref)
next
  case True
  have today: "bind_m (\<lambda>w. (Inr (today w), w)) f w' = f (today w') w'" for f :: "int \<Rightarrow> unit prog" and w'
    by (simp add: bind_m_def)
  show ?thesis
    unfolding profile_dataframe_def
    apply (simp only: bind_deref True if_True)
    apply (simp only: seq_print today bind_lift)
    apply (simp add: Let_def print_out_def cong: if_cong sum.case_cong split del: if_split)
    done
qed







subsection \<open>Rows, groups and runs that succeed\<close>

lemma has_getitem: "has df c \<longleftrightarrow> (\<exists>s. getitem df c = Inr s)"
proof -
  have "has df c \<longleftrightarrow> map_of (cols df) c \<noteq> None"
    by (simp add: has_def columns_def map_of_eq_None_iff)
  then show ?thesis
    by (auto simp: getitem_def split: option.splits)
qed

lemma numeric_getitem:
  "numeric df c \<longleftrightarrow> (\<exists>s xs. getitem df c = Inr s \<and> floats s = Inr xs)"
  by (auto simp: numeric_def split: sum.splits)

lemma wf_length: "wf df \<Longrightarrow> getitem df c = Inr s \<Longrightarrow> length s = len df"
  by (auto simp: wf_def getitem_def len_def list_all_iff split: option.splits
      dest!: map_of_SomeD)

lemma map_of_pick:
  "map_of (map (\<lambda>(n, v). (n, f v)) xs) c = map_option f (map_of xs c)"
  by (induction xs) auto

lemma getitem_filter_rows:
  "getitem (filter_rows msk df) c =
     (case getitem df c of Inl e \<Rightarrow> Inl e | Inr s \<Rightarrow> Inr (pick msk s))"
  by (simp add: getitem_def filter_rows_def map_of_pick split: option.splits)

lemma floats_pick: "floats s = Inr xs \<Longrightarrow> floats (pick msk s) = Inr (pick msk xs)"
proof (induction s arbitrary: xs msk)
  case Nil
  then show ?case by (simp add: pick_def)
next
  case (Cons c s)
  then obtain x ys where x: "as_float c = Inr x" and ys: "floats s = Inr ys" and xs: "xs = x # ys"
    by (auto simp: bind_e_Inr)
  show ?case
  proof (cases msk)
    case Nil
    then show ?thesis by (simp add: pick_def)
  next
    case (Cons b bs)
    with Cons.IH[OF ys, of bs] x xs show ?thesis
      by (cases b) (simp_all add: pick_def bind_e_def)
  qed
qed

lemma map_e_Inr: "(\<And>x. x \<in> set xs \<Longrightarrow> f x = Inr (g x)) \<Longrightarrow> map_e f xs = Inr (map g xs)"
  by (induction xs) (simp_all add: bind_e_def)

lemma say_simps:
  "heap (say xs w) = heap w" "files (say xs w) = files w" "shown (say xs w) = shown w"
  "today (say xs w) = today w" "stdout (say xs w) = stdout w @ xs"
  by (simp_all add: say_def)

lemma say_say: "say ys (say xs w) = say (xs @ ys) w"
  by (simp add: say_def)

lemma seq_say: "seq_m (print_out x) k w = k (say [x] w)"
  by (simp add: seq_m_def bind_m_def print_out_def say_def)

lemma print_say: "print_out x w = (Inr (), say [x] w)"
  by (simp add: print_out_def say_def)

lemma ret_apply: "ret x w = (Inr x, w)"
  by (simp add: ret_def)

lemma seq_guard:
  "seq_m (lift_e (if b then Inl e else Inr ())) k w = (if b then (Inl e, w) else k w)"
  by (simp add: seq_m_def bind_m_def lift_e_def)

lemma if_apply: "(if c then f else g) x = (if c then f x else g x)"
  by simp

lemmas run_simps = seq_guard seq_say print_say ret_apply bind_deref bind_lift bind_ret if_apply
  say_say say_simps append_Cons append_Nil Let_def

lemma gaps_eq:
  "analyze_settlement_gaps r threshold_days w =
    (if r < length (heap w) then
       (let df = heap w ! r;
            head = [banner,
                    Fmt ''SETTLEMENT GAP ANALYSIS (threshold: {} days)'' [Inum threshold_days],
                    Text rule60]
        in case getitem df ''days_to_settle'' of
             Inl e \<Rightarrow> (Inl e, say head w)
           | Inr d \<Rightarrow>
              (case floats d of
                 Inl e \<Rightarrow> (Inl e, say head w)
               | Inr ds \<Rightarrow>
                  (let breaches = filter_rows
                         (map (\<lambda>x. gt_f x (Some (real_of_int threshold_days))) ds) df;
                       total = [Fmt ''  Total Records     : {:,}'' [Inum (int (len df))]];
                       gap = [Fmt ''  Gap Breaches      : {:,} ({:.1f}%)''
                                [Inum (int (len breaches)),
                                 Num (real (len breaches) / real (len df) * 100)],
                              Fmt ''  Avg Gap (all)     : {:.1f} days'' [of_float (mean_f ds)]]
                   in if len df = 0 then (Inl ZeroDivisionError, say (head @ total) w)
                      else if \<not> empty_df breaches
                        then (case getitem breaches ''days_to_settle'' of
                                Inl e \<Rightarrow> (Inl e, say (head @ total @ gap) w)
                              | Inr b \<Rightarrow>
                                 (case floats b of
                                    Inl e \<Rightarrow> (Inl e, say (head @ total @ gap) w)
                                  | Inr bs \<Rightarrow>
                                     (Inr (), say (head @ total @ gap @
                                        [Fmt ''  Avg Gap (breaches): {:.1f} days''
                                           [of_float (mean_f bs)]]) w)))
                        else (Inr (), say (head @ total @ gap) w))))
     else (Inl (NoObject r), w))"
  unfolding analyze_settlement_gaps_def
  by (simp only: run_simps)
lemma sla_eq:
  "analyze_sla_breaches r w =
    (if r < length (heap w) then
       (let df = heap w ! r;
            head = [banner, Text ''SLA BREACH ANALYSIS - Healthcare Cases'', Text rule60]
        in case getitem df ''sla_status'' of
             Inl e \<Rightarrow> (Inl e, say head w)
           | Inr st \<Rightarrow>
              (let breaches = filter_rows (map is_breach st) df;
                   total = [Fmt ''  Total Cases  : {:,}'' [Inum (int (len df))]];
                   rate = [Fmt ''  SLA Breaches : {:,} ({:.1f}%)''
                             [Inum (int (len breaches)),
                              Num (real (len breaches) / real (len df) * 100)],
                           Text (CHR 0x0A # ''  Breach Rate by Priority:'')]
               in if len df = 0 then (Inl ZeroDivisionError, say (head @ total) w)
                  else (case priority_summary df of
                          Inl e \<Rightarrow> (Inl e, say (head @ total @ rate) w)
                        | Inr ps \<Rightarrow>
                           (case team_summary df of
                              Inl e \<Rightarrow>
                                (Inl e, say (head @ total @ rate @
                                   [Frame True ps, Text (CHR 0x0A # ''  Breach Rate by Team:'')]) w)
                            | Inr ts \<Rightarrow>
                                (Inr (), say (head @ total @ rate @
                                   [Frame True ps, Text (CHR 0x0A # ''  Breach Rate by Team:''),
                                    Frame True ts]) w)))))
     else (Inl (NoObject r), w))"
  unfolding analyze_sla_breaches_def
  by (simp only: run_simps)

lemma seq_savefig: "seq_m (savefig n fig) k w = k (w\<lparr>files := (files w)(n \<mapsto> fig)\<rparr>)"
  by (simp add: seq_m_def bind_m_def savefig_def)

lemma show_apply: "show_fig fig w = (Inr (), w\<lparr>shown := shown w @ [fig]\<rparr>)"
  by (simp add: show_fig_def)

lemma dashboard_eq:
  "generate_dashboard rf rh w =
    (if rf < length (heap w) then
      (if rh < length (heap w) then
        (case getitem (heap w ! rf) ''incentive_amount'' of
           Inl e \<Rightarrow> (Inl e, w)
         | Inr amt \<Rightarrow>
          (case floats amt of
             Inl e \<Rightarrow> (Inl e, w)
           | Inr xs \<Rightarrow>
            (case getitem (heap w ! rf) ''status'' of
               Inl e \<Rightarrow> (Inl e, w)
             | Inr st \<Rightarrow>
              (case groupby_scalar (heap w ! rh) ''priority'' breach_rate of
                 Inl e \<Rightarrow> (Inl e, w)
               | Inr sla_summary \<Rightarrow>
                (case team_hours (heap w ! rh) of
                   Inl e \<Rightarrow> (Inl e, w)
                 | Inr team_avg \<Rightarrow>
                    (let fig = \<lparr>hist_values = amt, mean_line = of_float (mean_f xs),
                                pie_counts = value_counts st,
                                sla_bars = reindex sla_summary [Str ''P1'', Str ''P2'', Str ''P3''],
                                team_bars = team_avg\<rparr>;
                         w1 = say [Text (CHR 0x0A # ''  Chart saved: production_support_dashboard.png'')]
                                (w\<lparr>files := (files w)(png \<mapsto> fig)\<rparr>)
                     in (Inr (), w1\<lparr>shown := shown w1 @ [fig]\<rparr>)))))))
       else (Inl (NoObject rh), w))
     else (Inl (NoObject rf), w))"
  unfolding generate_dashboard_def
  by (simp only: run_simps seq_savefig show_apply)

subsection \<open>What the modules write\<close>

lemma groupby_scalar_ok:
  assumes k: "getitem df c = Inr k"
    and f: "\<And>g. g \<in> set (group_keys k) \<Longrightarrow> f (group_of df k g) = Inr (v g)"
  shows "groupby_scalar df c f = Inr (map (\<lambda>g. (g, v g)) (group_keys k))"
proof -
  have "map_e (\<lambda>g. f (group_of df k g)) (group_keys k) = Inr (map v (group_keys k))"
    by (rule map_e_Inr) (rule f)
  moreover have "zip xs (map v xs) = map (\<lambda>g. (g, v g)) xs" for xs :: "cell list"
    by (induction xs) simp_all
  ultimately show ?thesis
    by (simp add: groupby_scalar_def k bind_e_def)
qed

lemma breach_rate_group:
  assumes "getitem df ''sla_status'' = Inr st"
  shows "breach_rate (group_of df k g) =
     Inr (Num (breach_pct (length (filter is_breach (pick (map (\<lambda>c. c = g) k) st)))
                 (len (group_of df k g))))"
  using assms by (simp add: breach_rate_def group_of_def getitem_filter_rows bind_e_def)

lemma avg_hours_group:
  assumes "getitem df ''resolution_hours'' = Inr h" and "floats h = Inr hs"
  shows "avg_hours (group_of df k g) =
     Inr (of_float (round_f 1 (mean_f (pick (map (\<lambda>c. c = g) k) hs))))"
  using assms floats_pick[OF assms(2)]
  by (simp add: avg_hours_def group_of_def getitem_filter_rows bind_e_def)

lemma dashboard_ok:
  assumes rf: "rf < length (heap w)" and rh: "rh < length (heap w)"
    and amt: "numeric (heap w ! rf) ''incentive_amount''"
    and st: "has (heap w ! rf) ''status''"
    and pr: "has (heap w ! rh) ''priority''"
    and sl: "has (heap w ! rh) ''sla_status''"
    and tm: "has (heap w ! rh) ''assigned_team''"
    and hr: "numeric (heap w ! rh) ''resolution_hours''"
  shows "\<exists>w' fig. generate_dashboard rf rh w = (Inr (), w') \<and> heap w' = heap w
     \<and> files w' = (files w)(png \<mapsto> fig)
     \<and> stdout w' = stdout w @ [Text (CHR 0x0A # ''  Chart saved: production_support_dashboard.png'')]"
proof -
  from amt obtain a xs where a: "getitem (heap w ! rf) ''incentive_amount'' = Inr a"
    and xs: "floats a = Inr xs"
    by (auto simp: numeric_getitem)
  from st obtain s where s: "getitem (heap w ! rf) ''status'' = Inr s"
    by (auto simp: has_getitem)
  from pr obtain p where p: "getitem (heap w ! rh) ''priority'' = Inr p"
    by (auto simp: has_getitem)
  from sl obtain ss where ss: "getitem (heap w ! rh) ''sla_status'' = Inr ss"
    by (auto simp: has_getitem)
  from tm obtain t where t: "getitem (heap w ! rh) ''assigned_team'' = Inr t"
    by (auto simp: has_getitem)
  from hr obtain h hs where h: "getitem (heap w ! rh) ''resolution_hours'' = Inr h"
    and hs: "floats h = Inr hs"
    by (auto simp: numeric_getitem)
  have g1: "groupby_scalar (heap w ! rh) ''priority'' breach_rate =
      Inr (map (\<lambda>g. (g, Num (breach_pct (length (filter is_breach (pick (map (\<lambda>c. c = g) p) ss)))
                 (len (group_of (heap w ! rh) p g))))) (group_keys p))"
    by (rule groupby_scalar_ok[OF p]) (rule breach_rate_group[OF ss])
  have "groupby_scalar (heap w ! rh) ''assigned_team'' avg_hours =
      Inr (map (\<lambda>g. (g, of_float (round_f 1 (mean_f (pick (map (\<lambda>c. c = g) t) hs)))))
             (group_keys t))"
    by (rule groupby_scalar_ok[OF t]) (rule avg_hours_group[OF h hs])
  then have g2: "team_hours (heap w ! rh) =
      Inr (map (\<lambda>g. (g, of_float (round_f 1 (mean_f (pick (map (\<lambda>c. c = g) t) hs)))))
             (group_keys t))"
    by (simp add: team_hours_def t h bind_e_def)
  show ?thesis
    unfolding dashboard_eq
    by (simp only: rf rh a xs s g1 g2 if_True sum.case Let_def say_simps world.simps)
      (auto simp: say_def)
qed

lemma profile_files: "files (snd (profile_dataframe r domain_name w)) = files w"
  unfolding profile_eq by (simp add: Let_def split: sum.splits)

lemma detect_files: "files (snd (detect_amount_anomalies r column threshold w)) = files w"
proof -
  let ?w0 = "w\<lparr>stdout := stdout w @ [banner,
                 Fmt ''ANOMALY DETECTION - {} (|Z-score| > {})'' [Str column, Num threshold],
                 Text rule60]\<rparr>"
  have "files (snd (find_anomalies r column threshold ?w0)) = files ?w0"
    using find_anomalies_frame by blast
  then show ?thesis
    by (auto simp: detect_eq Let_def split: sum.splits prod.splits)
qed

lemma gaps_files: "files (snd (analyze_settlement_gaps r threshold_days w)) = files w"
  unfolding gaps_eq by (simp add: Let_def say_simps split: sum.splits)

lemma sla_files: "files (snd (analyze_sla_breaches r w)) = files w"
  unfolding sla_eq by (simp add: Let_def say_simps split: sum.splits)

lemma dashboard_files:
  "f \<noteq> png \<Longrightarrow> files (snd (generate_dashboard rf rh w)) f = files w f"
  unfolding dashboard_eq by (simp add: Let_def say_simps split: sum.splits)
lemma seq_files:
  assumes m: "\<And>w. files (snd (m w)) f = files w f"
    and k: "\<And>w. files (snd (k w)) f = files w f"
  shows "files (snd (seq_m m k w)) f = files w f"
proof (cases "m w")
  case (Pair res w')
  with m[of w] have w': "files w' f = files w f"
    by simp
  show ?thesis
  proof (cases res)
    case (Inl e)
    with Pair w' show ?thesis
      by (simp add: seq_m_def bind_m_def)
  next
    case (Inr u)
    with Pair w' k[of w'] show ?thesis
      by (simp add: seq_m_def bind_m_def)
  qed
qed

lemma print_files: "files (snd (print_out x w)) f = files w f"
  by (simp add: print_out_def)

lemma main_files:
  assumes f: "f \<noteq> png"
  shows "files (snd (main rf rh w)) f = files w f"
  unfolding main_def
  by (intro seq_files print_files dashboard_files[OF f])
    (simp_all only: profile_files detect_files gaps_files sla_files)

lemma world0_schema:
  "numeric (heap world0 ! 0) ''incentive_amount''" "has (heap world0 ! 0) ''status''"
  "has (heap world0 ! Suc 0) ''priority''" "has (heap world0 ! Suc 0) ''sla_status''"
  "has (heap world0 ! Suc 0) ''assigned_team''" "numeric (heap world0 ! Suc 0) ''resolution_hours''"
  by (simp_all add: world0_def fin0_def hc1_def hc0_def numeric_def has_def columns_def
      getitem_def bind_e_def)

text \<open>
  C7, as the claim states it, fails: a run of \<open>generate_dashboard\<close> on the example
  frames leaves a file that was not there before.
\<close>

theorem dashboard_writes_a_file:
  "files (snd (generate_dashboard 0 (Suc 0) world0)) png \<noteq> files world0 png"
proof -
  have rf: "0 < length (heap world0)" and rh: "Suc 0 < length (heap world0)"
    by (simp_all add: world0_def)
  from dashboard_ok[OF rf rh world0_schema] obtain w' fig where
    "generate_dashboard 0 (Suc 0) world0 = (Inr (), w')" "files w' = (files world0)(png \<mapsto> fig)"
    by blast
  then show ?thesis
    by (simp add: world0_def)
qed

text \<open>
  C7, amended. The four analysis modules write no file, in any run; \<open>generate_dashboard\<close>
  and the main program write no file other than production_support_dashboard.png.
\<close>

theorem only_the_chart_is_written:
  "files (snd (profile_dataframe r domain_name w)) = files w
   \<and> files (snd (detect_amount_anomalies r column threshold w)) = files w
   \<and> files (snd (analyze_settlement_gaps r threshold_days w)) = files w
   \<and> files (snd (analyze_sla_breaches r w)) = files w
   \<and> (\<forall>f. f \<noteq> ''production_support_dashboard.png''
         \<longrightarrow> files (snd (generate_dashboard rf rh w)) f = files w f)
   \<and> (\<forall>f. f \<noteq> ''production_support_dashboard.png''
         \<longrightarrow> files (snd (main rf rh w)) f = files w f)"
  using profile_files detect_files gaps_files sla_files dashboard_files main_files
  unfolding png_def by blast

theorem only_the_chart_is_written_witness:
  "''report.csv'' \<noteq> ''production_support_dashboard.png''
   \<and> files (snd (main 0 (Suc 0) world0)) ''report.csv'' = None
   \<and> files (snd (analyze_sla_breaches (Suc 0) world0)) = files world0"
proof -
  have ne: "''report.csv'' \<noteq> ''production_support_dashboard.png''"
    by simp
  have "files world0 ''report.csv'' = None"
    by (simp add: world0_def)
  with only_the_chart_is_written[of "Suc 0" "''x''" world0 "''incentive_amount''" 3 5 0 "Suc 0"] ne
  show ?thesis
    by simp
qed

subsection \<open>Thresholds\<close>






subsection \<open>What the profile looks at\<close>










subsection \<open>Sorting and rounding\<close>

lemma set_insert_by: "set (insert_by le x xs) = insert x (set xs)"
  by (induction xs) auto

lemma set_sort_by: "set (sort_by le xs) = set xs"
  by (induction xs) (simp_all add: set_insert_by)

lemma length_insert_by: "length (insert_by le x xs) = Suc (length xs)"
  by (induction xs) simp_all

lemma length_sort_by: "length (sort_by le xs) = length xs"
  by (induction xs) (simp_all add: length_insert_by)

lemma distinct_insert_by: "distinct (map f (insert_by le x xs)) \<longleftrightarrow> distinct (map f (x # xs))"
  by (induction xs) (auto simp: set_insert_by)

lemma distinct_sort_by: "distinct (map f (sort_by le xs)) \<longleftrightarrow> distinct (map f xs)"
  by (induction xs) (simp_all add: distinct_insert_by set_sort_by)

lemma sorted_insert_by:
  assumes total: "\<And>a b. le a b \<or> le b a"
    and trans: "\<And>a b c. le a b \<Longrightarrow> le b c \<Longrightarrow> le a c"
  shows "sorted_wrt le xs \<Longrightarrow> sorted_wrt le (insert_by le x xs)"
proof (induction xs)
  case Nil
  then show ?case by simp
next
  case (Cons y ys)
  show ?case
  proof (cases "le x y")
    case True
    with Cons.prems trans show ?thesis
      by auto
  next
    case False
    with total have "le y x"
      by blast
    with False Cons show ?thesis
      by (auto simp: set_insert_by)
  qed
qed

lemma sorted_sort_by:
  assumes total: "\<And>a b. le a b \<or> le b a"
    and trans: "\<And>a b c. le a b \<Longrightarrow> le b c \<Longrightarrow> le a c"
  shows "sorted_wrt le (sort_by le xs)"
  by (induction xs) (simp_all add: sorted_insert_by[OF total trans])

lemma insert_by_map:
  assumes "\<And>a b. le' (f a) (f b) = le a b"
  shows "insert_by le' (f x) (map f xs) = map f (insert_by le x xs)"
  by (induction xs) (simp_all add: assms)

lemma sort_by_map:
  assumes "\<And>a b. le' (f a) (f b) = le a b"
  shows "sort_by le' (map f xs) = map f (sort_by le xs)"
proof (induction xs)
  case Nil
  show ?case by simp
next
  case (Cons x xs)
  have "insert_by le' (f x) (map f (sort_by le xs)) = map f (insert_by le x (sort_by le xs))"
    using assms by (rule insert_by_map)
  with Cons show ?case by simp
qed

lemma ge_desc_total: "ge_desc a b \<or> ge_desc b a"
  by (cases a; cases b) auto

lemma ge_desc_trans: "ge_desc a b \<Longrightarrow> ge_desc b c \<Longrightarrow> ge_desc a c"
  by (cases a; cases b; cases c) auto

text \<open>Reordering a column that is a function of the labels reorders the labels.\<close>

lemma reorder_map: "reorder ks (map f xs) = map f (reorder ks xs)"
proof -
  have z: "zip ks (map f xs) = map (\<lambda>p. (fst p, f (snd p))) (zip ks xs)"
    by (simp add: zip_map2 case_prod_unfold)
  have "sort_by (\<lambda>a b. ge_desc (fst a) (fst b)) (map (\<lambda>p. (fst p, f (snd p))) (zip ks xs))
      = map (\<lambda>p. (fst p, f (snd p))) (sort_by (\<lambda>a b. ge_desc (fst a) (fst b)) (zip ks xs))"
    by (rule sort_by_map) simp
  then show ?thesis
    by (simp add: reorder_def z comp_def)
qed

lemma reorder_set: "length ks = length xs \<Longrightarrow> set (reorder ks xs) = set xs"
proof -
  assume l: "length ks = length xs"
  have "set (reorder ks xs) = snd ` set (zip ks xs)"
    by (simp add: reorder_def set_sort_by)
  also have "\<dots> = set (map snd (zip ks xs))"
    by simp
  also have "map snd (zip ks xs) = xs"
    using l by simp
  finally show ?thesis .
qed

lemma reorder_length: "length ks = length xs \<Longrightarrow> length (reorder ks xs) = length xs"
  by (simp add: reorder_def length_sort_by)

lemma reorder_distinct:
  "length ks = length xs \<Longrightarrow> distinct xs \<Longrightarrow> distinct (reorder ks xs)"
  by (simp add: reorder_def distinct_sort_by)

lemma zip_map_self: "p \<in> set (zip (map g xs) xs) \<Longrightarrow> fst p = g (snd p)"
  by (induction xs) auto

text \<open>Sorting by a key that is a function of the labels sorts the labels by it.\<close>

lemma reorder_sorted:
  "sorted_wrt (\<lambda>g g'. f g' \<le> f g) (reorder (map (\<lambda>g. Some (f g)) xs) xs)"
proof -
  define le :: "real option \<times> 'a \<Rightarrow> real option \<times> 'a \<Rightarrow> bool"
    where "le = (\<lambda>a b. ge_desc (fst a) (fst b))"
  define zs where "zs = sort_by le (zip (map (\<lambda>g. Some (f g)) xs) xs)"
  have total: "le a b \<or> le b a" for a b
    unfolding le_def by (rule ge_desc_total)
  have trans: "le a b \<Longrightarrow> le b c \<Longrightarrow> le a c" for a b c
    unfolding le_def by (rule ge_desc_trans)
  have s: "sorted_wrt le zs"
    unfolding zs_def by (rule sorted_sort_by[of le, OF total trans])
  have p: "fst p = Some (f (snd p))" if "p \<in> set zs" for p
    using that unfolding zs_def set_sort_by by (rule zip_map_self)
  have "sorted_wrt (\<lambda>a b. f (snd b) \<le> f (snd a)) zs"
  proof (rule sorted_wrt_mono_rel[OF _ s])
    fix a b assume "a \<in> set zs" "b \<in> set zs" "le a b"
    with p[of a] p[of b] show "f (snd b) \<le> f (snd a)"
      by (simp add: le_def)
  qed
  then show ?thesis
    by (simp add: reorder_def sorted_wrt_map zs_def le_def)
qed
lemma rint_lower: "real_of_int a \<le> y \<Longrightarrow> a \<le> rint y"
proof -
  assume "real_of_int a \<le> y"
  then have "a \<le> \<lfloor>y\<rfloor>"
    by (simp add: le_floor_iff)
  then show ?thesis
    by (auto simp: rint_def Let_def)
qed

lemma rint_upper: "y \<le> real_of_int b \<Longrightarrow> rint y \<le> b"
proof -
  assume y: "y \<le> real_of_int b"
  show ?thesis
  proof (cases "\<lfloor>y\<rfloor> < b")
    case True
    then show ?thesis
      by (auto simp: rint_def Let_def)
  next
    case False
    moreover from y have "\<lfloor>y\<rfloor> \<le> b"
      by (simp add: floor_le_iff)
    ultimately have "\<lfloor>y\<rfloor> = b"
      by simp
    with y have "y - real_of_int \<lfloor>y\<rfloor> \<le> 0"
      by simp
    then show ?thesis
      using \<open>\<lfloor>y\<rfloor> = b\<close> by (auto simp: rint_def Let_def)
  qed
qed

lemma breach_pct_bounds:
  assumes "b \<le> n"
  shows "0 \<le> breach_pct b n \<and> breach_pct b n \<le> 100"
proof -
  let ?y = "100 * real b / real n * 10 ^ 1"
  have q: "0 \<le> real b / real n \<and> real b / real n \<le> 1"
    using assms by (cases "n = 0") (simp_all add: divide_le_eq)
  then have lo: "real_of_int 0 \<le> ?y" and hi: "?y \<le> real_of_int 1000"
    by simp_all
  have "0 \<le> rint ?y"
    using lo by (rule rint_lower)
  moreover have "rint ?y \<le> 1000"
    using hi by (rule rint_upper)
  ultimately show ?thesis
    by (simp add: breach_pct_def round_to_def)
qed

subsection \<open>Grouped summaries\<close>

lemma pick_eq_key: "pick (map (\<lambda>c. c = g) k) xs = map snd (filter (\<lambda>(c, x). c = g) (zip k xs))"
proof (induction k arbitrary: xs)
  case Nil
  show ?case by (simp add: pick_def)
next
  case (Cons c k)
  then show ?case
    by (cases xs) (simp_all add: pick_def)
qed

lemma group_len:
  assumes "length k = length (index df)"
  shows "len (group_of df k g) = group_total k g"
proof -
  have "length (filter (\<lambda>(c, x). c = g) (zip k xs)) = length (filter (\<lambda>c. c = g) k)"
    if "length k = length xs" for xs :: "cell list"
    using that by (induction k xs rule: list_induct2) simp_all
  with assms show ?thesis
    by (simp add: len_def group_of_def filter_rows_def pick_eq_key group_total_def)
qed

lemma group_breach_count:
  "length (filter is_breach (pick (map (\<lambda>c. c = g) k) st)) = group_breaches k st g"
proof -
  have "filter is_breach (map snd zs) = map snd (filter (\<lambda>(c, s). is_breach s) zs)"
    for zs :: "(cell \<times> cell) list"
    by (induction zs) auto
  then show ?thesis
    by (simp add: pick_eq_key group_breaches_def is_breach_def case_prod_unfold conj_commute)
qed

lemma priority_row_group:
  assumes st: "getitem df ''sla_status'' = Inr st"
    and h: "getitem df ''resolution_hours'' = Inr h" and hs: "floats h = Inr hs"
    and k: "length k = length (index df)"
  shows "priority_row (group_of df k g) =
     Inr [(''total'', Num (real (group_total k g))),
          (''breaches'', Num (real (group_breaches k st g))),
          (''breach_pct'', Num (breach_pct (group_breaches k st g) (group_total k g))),
          (''avg_res_hours'', of_float (round_f 1 (mean_f (group_hours k hs g))))]"
proof -
  have a: "getitem (group_of df k g) ''sla_status'' = Inr (pick (map (\<lambda>c. c = g) k) st)"
    by (simp add: group_of_def getitem_filter_rows st)
  have b: "getitem (group_of df k g) ''resolution_hours'' = Inr (pick (map (\<lambda>c. c = g) k) h)"
    by (simp add: group_of_def getitem_filter_rows h)
  have c: "floats (pick (map (\<lambda>c. c = g) k) h) = Inr (group_hours k hs g)"
    using floats_pick[OF hs, of "map (\<lambda>c. c = g) k"]
    by (simp only: group_hours_def pick_eq_key[symmetric])
  show ?thesis
    by (simp add: priority_row_def a b c bind_e_def group_len[OF k] group_breach_count)
qed

lemma team_row_group:
  assumes st: "getitem df ''sla_status'' = Inr st"
    and k: "length k = length (index df)"
  shows "team_row (group_of df k g) =
     Inr [(''total'', Num (real (group_total k g))),
          (''breaches'', Num (real (group_breaches k st g))),
          (''breach_pct'', Num (breach_pct (group_breaches k st g) (group_total k g)))]"
proof -
  have a: "getitem (group_of df k g) ''sla_status'' = Inr (pick (map (\<lambda>c. c = g) k) st)"
    by (simp add: group_of_def getitem_filter_rows st)
  show ?thesis
    by (simp add: team_row_def a bind_e_def group_len[OF k] group_breach_count)
qed

lemma groupby_apply_rows:
  assumes k: "getitem df c = Inr k"
    and m: "map_e (\<lambda>g. f (group_of df k g)) (group_keys k) = Inr (r # rs)"
  shows "groupby_apply df c f =
     Inr \<lparr>index = group_keys k,
          cols = map (\<lambda>n. (n, map (\<lambda>x. field x n) (r # rs))) (map fst r)\<rparr>"
  by (simp add: groupby_apply_def k bind_e_def m)

lemma priority_summary_eq:
  assumes k: "getitem df ''priority'' = Inr k" and ne: "group_keys k \<noteq> []"
    and st: "getitem df ''sla_status'' = Inr st"
    and h: "getitem df ''resolution_hours'' = Inr h" and hs: "floats h = Inr hs"
    and l: "length k = length (index df)"
  shows "priority_summary df = Inr
     \<lparr>index = group_keys k,
      cols = [(''total'', map (\<lambda>g. Num (real (group_total k g))) (group_keys k)),
              (''breaches'', map (\<lambda>g. Num (real (group_breaches k st g))) (group_keys k)),
              (''breach_pct'', map (\<lambda>g. Num (breach_pct (group_breaches k st g) (group_total k g)))
                                (group_keys k)),
              (''avg_res_hours'', map (\<lambda>g. of_float (round_f 1 (mean_f (group_hours k hs g))))
                                   (group_keys k))]\<rparr>"
proof -
  let ?row = "\<lambda>g. [(''total'', Num (real (group_total k g))),
          (''breaches'', Num (real (group_breaches k st g))),
          (''breach_pct'', Num (breach_pct (group_breaches k st g) (group_total k g))),
          (''avg_res_hours'', of_float (round_f 1 (mean_f (group_hours k hs g))))]"
  have m: "map_e (\<lambda>g. priority_row (group_of df k g)) (group_keys k) = Inr (map ?row (group_keys k))"
    by (rule map_e_Inr) (rule priority_row_group[OF st h hs l])
  from ne obtain g gs where gs: "group_keys k = g # gs"
    by (cases "group_keys k") auto
  have "map_e (\<lambda>g. priority_row (group_of df k g)) (group_keys k) = Inr (?row g # map ?row gs)"
    using m by (simp add: gs)
  from groupby_apply_rows[OF k this] show ?thesis
    by (simp add: priority_summary_def gs field_def)
qed

lemma team_groups_eq:
  assumes t: "getitem df ''assigned_team'' = Inr t" and ne: "group_keys t \<noteq> []"
    and st: "getitem df ''sla_status'' = Inr st"
    and l: "length t = length (index df)"
  shows "groupby_apply df ''assigned_team'' team_row = Inr
     \<lparr>index = group_keys t,
      cols = [(''total'', map (\<lambda>g. Num (real (group_total t g))) (group_keys t)),
              (''breaches'', map (\<lambda>g. Num (real (group_breaches t st g))) (group_keys t)),
              (''breach_pct'', map (\<lambda>g. Num (breach_pct (group_breaches t st g) (group_total t g)))
                                (group_keys t))]\<rparr>"
proof -
  let ?row = "\<lambda>g. [(''total'', Num (real (group_total t g))),
          (''breaches'', Num (real (group_breaches t st g))),
          (''breach_pct'', Num (breach_pct (group_breaches t st g) (group_total t g)))]"
  have m: "map_e (\<lambda>g. team_row (group_of df t g)) (group_keys t) = Inr (map ?row (group_keys t))"
    by (rule map_e_Inr) (rule team_row_group[OF st l])
  from ne obtain g gs where gs: "group_keys t = g # gs"
    by (cases "group_keys t") auto
  have "map_e (\<lambda>g. team_row (group_of df t g)) (group_keys t) = Inr (?row g # map ?row gs)"
    using m by (simp add: gs)
  from groupby_apply_rows[OF t this] show ?thesis
    by (simp add: gs field_def)
qed
lemma floats_Num: "floats (map (\<lambda>g. Num (f g)) xs) = Inr (map (\<lambda>g. Some (f g)) xs)"
  using floats_of_float_map[of "\<lambda>g. Some (f g)" xs] by simp

lemma set_uniq: "set (uniq xs) = set xs"
  by (induction xs) auto

lemma distinct_uniq: "distinct (uniq xs)"
  by (induction xs) (auto simp: set_uniq)

lemma group_keys_set: "set (group_keys k) = {c \<in> set k. \<not> isnull c}"
  by (simp add: group_keys_def set_sort_by set_uniq)

lemma group_keys_distinct: "distinct (group_keys k)"
  using distinct_sort_by[of "\<lambda>x. x" cell_le "uniq (filter (\<lambda>c. \<not> isnull c) k)"]
  by (simp add: group_keys_def distinct_uniq)

lemma team_summary_eq:
  assumes t: "getitem df ''assigned_team'' = Inr t" and ne: "group_keys t \<noteq> []"
    and st: "getitem df ''sla_status'' = Inr st"
    and l: "length t = length (index df)"
  shows "team_summary df = Inr
     \<lparr>index = reorder (map (\<lambda>g. Some (breach_pct (group_breaches t st g) (group_total t g)))
                       (group_keys t)) (group_keys t),
      cols = [(''total'', map (\<lambda>g. Num (real (group_total t g)))
                (reorder (map (\<lambda>g. Some (breach_pct (group_breaches t st g) (group_total t g)))
                       (group_keys t)) (group_keys t))),
              (''breaches'', map (\<lambda>g. Num (real (group_breaches t st g)))
                (reorder (map (\<lambda>g. Some (breach_pct (group_breaches t st g) (group_total t g)))
                       (group_keys t)) (group_keys t))),
              (''breach_pct'', map (\<lambda>g. Num (breach_pct (group_breaches t st g) (group_total t g)))
                (reorder (map (\<lambda>g. Some (breach_pct (group_breaches t st g) (group_total t g)))
                       (group_keys t)) (group_keys t)))]\<rparr>"
  unfolding team_summary_def team_groups_eq[OF t ne st l]
  by (simp add: bind_e_def sort_values_desc_def getitem_def floats_Num reorder_map)
lemma sla_run:
  assumes r: "r < length (heap w)"
    and ps: "priority_summary (heap w ! r) = Inr ps"
    and ts: "team_summary (heap w ! r) = Inr ts"
    and st: "getitem (heap w ! r) ''sla_status'' = Inr st"
    and rows: "0 < len (heap w ! r)"
  shows "analyze_sla_breaches r w =
     (Inr (), say [banner, Text ''SLA BREACH ANALYSIS - Healthcare Cases'', Text rule60,
                   Fmt ''  Total Cases  : {:,}'' [Inum (int (len (heap w ! r)))],
                   Fmt ''  SLA Breaches : {:,} ({:.1f}%)''
                     [Inum (int (len (filter_rows (map is_breach st) (heap w ! r)))),
                      Num (real (len (filter_rows (map is_breach st) (heap w ! r)))
                            / real (len (heap w ! r)) * 100)],
                   Text (CHR 0x0A # ''  Breach Rate by Priority:''),
                   Frame True ps,
                   Text (CHR 0x0A # ''  Breach Rate by Team:''),
                   Frame True ts] w)"
proof -
  have ne: "len (heap w ! r) \<noteq> 0"
    using rows by simp
  show ?thesis
    unfolding sla_eq
    by (simp only: r if_True Let_def st sum.case ne if_False ps ts append_Cons append_Nil)
qed

text \<open>
  C6, as the claim states it, fails for the grouping by team: the team summary of the
  example frame has the columns total, breaches and breach_pct, and no avg_res_hours.
\<close>

theorem team_summary_has_no_average:
  "team_summary hc1 =
     Inr \<lparr>index = [Str ''Team_Alpha'', Str ''Team_Beta''],
          cols = [(''total'', [Num 1, Num 1]),
                  (''breaches'', [Num 1, Num 0]),
                  (''breach_pct'', [Num 100, Num 0])]\<rparr>
   \<and> getitem \<lparr>index = [Str ''Team_Alpha'', Str ''Team_Beta''],
               cols = [(''total'', [Num 1, Num 1]),
                       (''breaches'', [Num 1, Num 0]),
                       (''breach_pct'', [Num 100, Num 0])]\<rparr> ''avg_res_hours''
       = Inl (KeyError ''avg_res_hours'')"
proof -
  have t: "getitem hc1 ''assigned_team'' = Inr [Str ''Team_Alpha'', Null, Str ''Team_Beta'']"
    and st: "getitem hc1 ''sla_status'' = Inr [Str ''SLA_BREACH'', Str ''WITHIN_SLA'', Str ''WITHIN_SLA'']"
    by (simp_all add: getitem_def hc1_def hc0_def)
  have keys: "group_keys [Str ''Team_Alpha'', Null, Str ''Team_Beta''] = [Str ''Team_Alpha'', Str ''Team_Beta'']"
    by (simp add: group_keys_def)
  have l: "length [Str ''Team_Alpha'', Null, Str ''Team_Beta''] = length (index hc1)"
    by (simp add: hc1_def hc0_def)
  have ne: "group_keys [Str ''Team_Alpha'', Null, Str ''Team_Beta''] \<noteq> []"
    by (simp add: keys)
  have p: "breach_pct (Suc 0) (Suc 0) = 100" "breach_pct 0 (Suc 0) = 0"
    by (simp_all add: breach_pct_def round_to_def rint_def)
  have "team_summary hc1 =
     Inr \<lparr>index = [Str ''Team_Alpha'', Str ''Team_Beta''],
          cols = [(''total'', [Num 1, Num 1]),
                  (''breaches'', [Num 1, Num 0]),
                  (''breach_pct'', [Num 100, Num 0])]\<rparr>"
    unfolding team_summary_eq[OF t ne st l] keys
    by (simp add: group_total_def group_breaches_def p reorder_def)
  then show ?thesis
    by (simp add: getitem_def)
qed
text \<open>
  C6, amended. For a healthcare frame with at least one row, one case with a priority
  and one with a team: \<open>analyze_sla_breaches\<close> prints a summary by priority and one
  by team. A group is a non-null value of the key column. The summary by priority gives,
  for each group, total (the number of its rows), breaches (the number of its rows with
  the status "SLA_BREACH"), breach_pct (100 times breaches by total, rounded to 1
  decimal) and avg_res_hours (the mean of its resolution hours, rounded to 1 decimal).
  The summary by team gives total, breaches and breach_pct, has no avg_res_hours, and
  is ordered by breach_pct, descending.
\<close>

theorem grouped_sla_summaries:
  assumes r: "r < length (heap w)" and df: "df = heap w ! r"
    and wf: "wf df" and rows: "0 < len df"
    and k: "getitem df ''priority'' = Inr k" and nk: "group_keys k \<noteq> []"
    and t: "getitem df ''assigned_team'' = Inr t" and nt: "group_keys t \<noteq> []"
    and st: "getitem df ''sla_status'' = Inr st"
    and h: "getitem df ''resolution_hours'' = Inr h" and hs: "floats h = Inr hs"
  shows "\<exists>ps ts w' pre.
      analyze_sla_breaches r w = (Inr (), w')
    \<and> stdout w' = stdout w @ pre @
         [Frame True ps, Text (CHR 0x0A # ''  Breach Rate by Team:''), Frame True ts]
    \<and> priority_summary df = Inr ps \<and> team_summary df = Inr ts
    \<and> index ps = group_keys k
    \<and> set (index ps) = {c \<in> set k. \<not> isnull c} \<and> distinct (index ps)
    \<and> getitem ps ''total'' = Inr (map (\<lambda>g. Num (real (group_total k g))) (index ps))
    \<and> getitem ps ''breaches'' = Inr (map (\<lambda>g. Num (real (group_breaches k st g))) (index ps))
    \<and> getitem ps ''breach_pct'' = Inr (map (\<lambda>g. Num (group_pct k st g)) (index ps))
    \<and> getitem ps ''avg_res_hours''
        = Inr (map (\<lambda>g. of_float (round_f 1 (mean_f (group_hours k hs g)))) (index ps))
    \<and> set (index ts) = {c \<in> set t. \<not> isnull c} \<and> distinct (index ts)
    \<and> getitem ts ''total'' = Inr (map (\<lambda>g. Num (real (group_total t g))) (index ts))
    \<and> getitem ts ''breaches'' = Inr (map (\<lambda>g. Num (real (group_breaches t st g))) (index ts))
    \<and> getitem ts ''breach_pct'' = Inr (map (\<lambda>g. Num (group_pct t st g)) (index ts))
    \<and> getitem ts ''avg_res_hours'' = Inl (KeyError ''avg_res_hours'')
    \<and> sorted_wrt (\<lambda>g g'. group_pct t st g' \<le> group_pct t st g) (index ts)"
proof -
  have lk: "length k = length (index df)" and lt: "length t = length (index df)"
    using wf_length[OF wf k] wf_length[OF wf t] by (simp_all add: len_def)
  have pct: "breach_pct (group_breaches c st g) (group_total c g) = group_pct c st g" for c g
    by (simp add: breach_pct_def group_pct_def)
  let ?order = "reorder (map (\<lambda>g. Some (group_pct t st g)) (group_keys t)) (group_keys t)"
  define ps where "ps = \<lparr>index = group_keys k,
      cols = [(''total'', map (\<lambda>g. Num (real (group_total k g))) (group_keys k)),
              (''breaches'', map (\<lambda>g. Num (real (group_breaches k st g))) (group_keys k)),
              (''breach_pct'', map (\<lambda>g. Num (group_pct k st g)) (group_keys k)),
              (''avg_res_hours'', map (\<lambda>g. of_float (round_f 1 (mean_f (group_hours k hs g))))
                                   (group_keys k))]\<rparr>"
  define ts where "ts = \<lparr>index = ?order,
      cols = [(''total'', map (\<lambda>g. Num (real (group_total t g))) ?order),
              (''breaches'', map (\<lambda>g. Num (real (group_breaches t st g))) ?order),
              (''breach_pct'', map (\<lambda>g. Num (group_pct t st g)) ?order)]\<rparr>"
  have p1: "priority_summary df = Inr ps"
    using priority_summary_eq[OF k nk st h hs lk] by (simp add: ps_def pct)
  have t1: "team_summary df = Inr ts"
    using team_summary_eq[OF t nt st lt] by (simp add: ts_def pct)
  have run: "analyze_sla_breaches r w =
     (Inr (), say [banner, Text ''SLA BREACH ANALYSIS - Healthcare Cases'', Text rule60,
                   Fmt ''  Total Cases  : {:,}'' [Inum (int (len (heap w ! r)))],
                   Fmt ''  SLA Breaches : {:,} ({:.1f}%)''
                     [Inum (int (len (filter_rows (map is_breach st) (heap w ! r)))),
                      Num (real (len (filter_rows (map is_breach st) (heap w ! r)))
                            / real (len (heap w ! r)) * 100)],
                   Text (CHR 0x0A # ''  Breach Rate by Priority:''),
                   Frame True ps,
                   Text (CHR 0x0A # ''  Breach Rate by Team:''),
                   Frame True ts] w)"
    using p1 t1 st rows unfolding df by (rule sla_run[OF r])
  have out: "\<exists>w' pre. analyze_sla_breaches r w = (Inr (), w')
    \<and> stdout w' = stdout w @ pre @
         [Frame True ps, Text (CHR 0x0A # ''  Breach Rate by Team:''), Frame True ts]"
    unfolding run
    by (rule exI[of _ "say _ w"], rule exI[of _ "[_, _, _, _, _, _]"]) (simp add: say_simps)
  have ips: "index ps = group_keys k" and its: "index ts = ?order"
    by (simp_all add: ps_def ts_def)
  have lo: "length (map (\<lambda>g. Some (group_pct t st g)) (group_keys t)) = length (group_keys t)"
    by simp
  have a: "set (index ps) = {c \<in> set k. \<not> isnull c}" "distinct (index ps)"
    by (simp_all add: ips group_keys_set group_keys_distinct)
  have b: "set (index ts) = {c \<in> set t. \<not> isnull c}" "distinct (index ts)"
    unfolding its
    by (simp_all only: reorder_set[OF lo] reorder_distinct[OF lo group_keys_distinct] group_keys_set)
  have c: "getitem ps ''total'' = Inr (map (\<lambda>g. Num (real (group_total k g))) (index ps))"
    "getitem ps ''breaches'' = Inr (map (\<lambda>g. Num (real (group_breaches k st g))) (index ps))"
    "getitem ps ''breach_pct'' = Inr (map (\<lambda>g. Num (group_pct k st g)) (index ps))"
    "getitem ps ''avg_res_hours''
        = Inr (map (\<lambda>g. of_float (round_f 1 (mean_f (group_hours k hs g)))) (index ps))"
    by (simp_all add: ps_def getitem_def)
  have d: "getitem ts ''total'' = Inr (map (\<lambda>g. Num (real (group_total t g))) (index ts))"
    "getitem ts ''breaches'' = Inr (map (\<lambda>g. Num (real (group_breaches t st g))) (index ts))"
    "getitem ts ''breach_pct'' = Inr (map (\<lambda>g. Num (group_pct t st g)) (index ts))"
    "getitem ts ''avg_res_hours'' = Inl (KeyError ''avg_res_hours'')"
    by (simp_all add: ts_def getitem_def)
  have e: "sorted_wrt (\<lambda>g g'. group_pct t st g' \<le> group_pct t st g) (index ts)"
    unfolding its by (rule reorder_sorted)
  from out p1 t1 ips a b c d e show ?thesis
    by blast
qed

lemma hc1_columns:
  "getitem (heap world0 ! Suc 0) ''priority'' = Inr [Str ''P1'', Str ''P2'', Str ''P3'']"
  "getitem (heap world0 ! Suc 0) ''assigned_team'' = Inr [Str ''Team_Alpha'', Null, Str ''Team_Beta'']"
  "getitem (heap world0 ! Suc 0) ''sla_status''
     = Inr [Str ''SLA_BREACH'', Str ''WITHIN_SLA'', Str ''WITHIN_SLA'']"
  "getitem (heap world0 ! Suc 0) ''resolution_hours'' = Inr [Inum 5, Inum 24, Inum 10]"
  by (simp_all add: world0_def getitem_def hc1_def hc0_def)

lemma hc1_keys:
  "group_keys [Str ''P1'', Str ''P2'', Str ''P3''] = [Str ''P1'', Str ''P2'', Str ''P3'']"
  "group_keys [Str ''Team_Alpha'', Null, Str ''Team_Beta''] = [Str ''Team_Alpha'', Str ''Team_Beta'']"
  by (simp_all add: group_keys_def)

lemma hc1_shape: "wf (heap world0 ! Suc 0)" "0 < len (heap world0 ! Suc 0)"
  "Suc 0 < length (heap world0)"
  by (simp_all add: world0_def wf_def len_def hc1_def hc0_def)

theorem grouped_sla_summaries_witness:
  "Suc 0 < length (heap world0) \<and> wf (heap world0 ! Suc 0) \<and> 0 < len (heap world0 ! Suc 0)
   \<and> getitem (heap world0 ! Suc 0) ''priority'' = Inr [Str ''P1'', Str ''P2'', Str ''P3'']
   \<and> group_keys [Str ''P1'', Str ''P2'', Str ''P3''] \<noteq> []
   \<and> getitem (heap world0 ! Suc 0) ''assigned_team'' = Inr [Str ''Team_Alpha'', Null, Str ''Team_Beta'']
   \<and> group_keys [Str ''Team_Alpha'', Null, Str ''Team_Beta''] \<noteq> []
   \<and> getitem (heap world0 ! Suc 0) ''sla_status''
       = Inr [Str ''SLA_BREACH'', Str ''WITHIN_SLA'', Str ''WITHIN_SLA'']
   \<and> getitem (heap world0 ! Suc 0) ''resolution_hours'' = Inr [Inum 5, Inum 24, Inum 10]
   \<and> floats [Inum 5, Inum 24, Inum 10] = Inr [Some 5, Some 24, Some 10]
   \<and> (\<exists>ps ts. priority_summary (heap world0 ! Suc 0) = Inr ps
         \<and> team_summary (heap world0 ! Suc 0) = Inr ts
         \<and> index ps = [Str ''P1'', Str ''P2'', Str ''P3'']
         \<and> getitem ps ''breach_pct'' = Inr [Num 100, Num 0, Num 0]
         \<and> getitem ps ''avg_res_hours'' = Inr [Num 5, Num 24, Num 10]
         \<and> getitem ts ''avg_res_hours'' = Inl (KeyError ''avg_res_hours''))"
proof -
  let ?k = "[Str ''P1'', Str ''P2'', Str ''P3'']"
  let ?t = "[Str ''Team_Alpha'', Null, Str ''Team_Beta'']"
  let ?st = "[Str ''SLA_BREACH'', Str ''WITHIN_SLA'', Str ''WITHIN_SLA'']"
  let ?hs = "[Some 5, Some 24, Some (10::real)]"
  have nk: "group_keys ?k \<noteq> []" and nt: "group_keys ?t \<noteq> []"
    by (simp_all add: hc1_keys)
  have hs: "floats [Inum 5, Inum 24, Inum 10] = Inr ?hs"
    by (simp add: bind_e_def)
  from grouped_sla_summaries[OF hc1_shape(3) refl hc1_shape(1,2) hc1_columns(1) nk
      hc1_columns(2) nt hc1_columns(3,4) hs]
  obtain ps ts where p: "priority_summary (heap world0 ! Suc 0) = Inr ps"
    and t: "team_summary (heap world0 ! Suc 0) = Inr ts"
    and i: "index ps = group_keys ?k"
    and b: "getitem ps ''breach_pct'' = Inr (map (\<lambda>g. Num (group_pct ?k ?st g)) (index ps))"
    and a: "getitem ps ''avg_res_hours''
        = Inr (map (\<lambda>g. of_float (round_f 1 (mean_f (group_hours ?k ?hs g)))) (index ps))"
    and n: "getitem ts ''avg_res_hours'' = Inl (KeyError ''avg_res_hours'')"
    by blast
  have i': "index ps = ?k"
    using i by (simp only: hc1_keys)
  have r: "round_to (Suc 0) 100 = 100" "round_to (Suc 0) 0 = 0" "round_to (Suc 0) 5 = 5"
    "round_to (Suc 0) 24 = 24" "round_to (Suc 0) 10 = 10"
    by (simp_all add: round_to_def rint_def)
  have b': "getitem ps ''breach_pct'' = Inr [Num 100, Num 0, Num 0]"
    unfolding b i' by (simp add: group_pct_def group_breaches_def group_total_def r)
  have a': "getitem ps ''avg_res_hours'' = Inr [Num 5, Num 24, Num 10]"
    unfolding a i'
    by (simp add: group_hours_def mean_f_def present_def round_f_def r)
  from p t i' b' a' n have "\<exists>ps ts. priority_summary (heap world0 ! Suc 0) = Inr ps
         \<and> team_summary (heap world0 ! Suc 0) = Inr ts
         \<and> index ps = [Str ''P1'', Str ''P2'', Str ''P3'']
         \<and> getitem ps ''breach_pct'' = Inr [Num 100, Num 0, Num 0]
         \<and> getitem ps ''avg_res_hours'' = Inr [Num 5, Num 24, Num 10]
         \<and> getitem ts ''avg_res_hours'' = Inl (KeyError ''avg_res_hours'')"
    by blast
  with hc1_shape hc1_columns nk nt hs show ?thesis
    by (intro conjI)
qed

subsection \<open>The two values of the SLA status\<close>

lemma sla_status_column:
  assumes run: "add_sla_columns df = Inr df'"
  shows "\<exists>m. getitem df' ''sla_status'' = Inr (map sla_label m) \<and> length m = len df'"
proof -
  from run obtain df1 m where out: "setitem df1 ''sla_status'' (map sla_label m) = Inr df'"
    by (auto simp: add_sla_columns_def bind_e_Inr)
  have "getitem df' ''sla_status'' = Inr (map sla_label m)"
    using getitem_setitem[OF out] by simp
  moreover have "length m = len df'"
    using out index_setitem[OF out] by (auto simp: setitem_def len_def split: if_splits)
  ultimately show ?thesis
    by blast
qed

lemma sla_label_values: "sla_label b = Str ''SLA_BREACH'' \<or> sla_label b = Str ''WITHIN_SLA''"
  by (simp add: sla_label_def)

lemma sla_label_counts:
  "length (filter (\<lambda>c. c = Str ''SLA_BREACH'') (map sla_label m))
   + length (filter (\<lambda>c. c = Str ''WITHIN_SLA'') (map sla_label m)) = length m"
  by (induction m) (simp_all add: sla_label_def)

lemma group_breaches_le: "group_breaches k st g \<le> group_total k g"
proof -
  have "length (filter (\<lambda>(c, s). c = g \<and> s = Str ''SLA_BREACH'') (zip k st))
      \<le> length (filter (\<lambda>c. c = g) k)"
  proof (induction k arbitrary: st)
    case Nil
    show ?case by simp
  next
    case (Cons c k)
    show ?case
    proof (cases st)
      case Nil
      then show ?thesis by simp
    next
      case (Cons s st')
      with Cons.IH[of st'] show ?thesis
        by (auto simp: le_SucI)
    qed
  qed
  then show ?thesis
    by (simp add: group_breaches_def group_total_def)
qed

lemma group_pct_bounds: "0 \<le> group_pct k st g \<and> group_pct k st g \<le> 100"
  using breach_pct_bounds[OF group_breaches_le[of k st g]]
  by (simp add: breach_pct_def group_pct_def)

lemma breaches_len:
  assumes "length st = len df"
  shows "len (filter_rows (map is_breach st) df) = length (filter (\<lambda>c. c = Str ''SLA_BREACH'') st)"
proof -
  have "take (len df) (map is_breach st) = map is_breach st"
    using assms by simp
  then have "len (filter_rows (map is_breach st) df) = length (filter id (map is_breach st))"
    using len_filter_rows[of "map is_breach st" df] by simp
  also have "\<dots> = length (filter is_breach st)"
    by (simp add: filter_map comp_def)
  finally show ?thesis
    by (simp add: is_breach_def[abs_def])
qed
text \<open>
  C10. Every \<open>sla_status\<close> of the healthcare frame is "SLA_BREACH" or "WITHIN_SLA", so
  the breaches and the cases within the SLA add up to the total that
  \<open>analyze_sla_breaches\<close> prints, the breach count it prints is the number of
  "SLA_BREACH" rows, and every \<open>breach_pct\<close> of the summaries by priority and by team
  lies between 0 and 100.
\<close>

theorem sla_status_is_one_of_two:
  assumes run: "add_sla_columns df = Inr df'"
    and r: "r < length (heap w)" and at: "heap w ! r = df'"
    and wf: "wf df'" and rows: "0 < len df'"
    and k: "getitem df' ''priority'' = Inr k" and nk: "group_keys k \<noteq> []"
    and t: "getitem df' ''assigned_team'' = Inr t" and nt: "group_keys t \<noteq> []"
    and h: "getitem df' ''resolution_hours'' = Inr h" and hs: "floats h = Inr hs"
  shows "\<exists>st ps ts w' bp bt.
      getitem df' ''sla_status'' = Inr st
    \<and> (\<forall>c \<in> set st. c = Str ''SLA_BREACH'' \<or> c = Str ''WITHIN_SLA'')
    \<and> length (filter (\<lambda>c. c = Str ''SLA_BREACH'') st)
        + length (filter (\<lambda>c. c = Str ''WITHIN_SLA'') st) = len df'
    \<and> analyze_sla_breaches r w = (Inr (), w')
    \<and> Fmt ''  Total Cases  : {:,}'' [Inum (int (len df'))] \<in> set (stdout w')
    \<and> Fmt ''  SLA Breaches : {:,} ({:.1f}%)''
          [Inum (int (length (filter (\<lambda>c. c = Str ''SLA_BREACH'') st))),
           Num (real (length (filter (\<lambda>c. c = Str ''SLA_BREACH'') st)) / real (len df') * 100)]
        \<in> set (stdout w')
    \<and> priority_summary df' = Inr ps \<and> getitem ps ''breach_pct'' = Inr bp
    \<and> team_summary df' = Inr ts \<and> getitem ts ''breach_pct'' = Inr bt
    \<and> (\<forall>c \<in> set bp \<union> set bt. \<exists>x. c = Num x \<and> 0 \<le> x \<and> x \<le> 100)"
proof -
  from sla_status_column[OF run] obtain m where
    st: "getitem df' ''sla_status'' = Inr (map sla_label m)" and lm: "length m = len df'"
    by blast
  let ?st = "map sla_label m"
  let ?b = "length (filter (\<lambda>c. c = Str ''SLA_BREACH'') ?st)"
  have lk: "length k = length (index df')" and lt: "length t = length (index df')"
    using wf_length[OF wf k] wf_length[OF wf t] by (simp_all add: len_def)
  have pct: "breach_pct (group_breaches c ?st g) (group_total c g) = group_pct c ?st g" for c g
    by (simp add: breach_pct_def group_pct_def)
  have two: "\<forall>c \<in> set ?st. c = Str ''SLA_BREACH'' \<or> c = Str ''WITHIN_SLA''"
    using sla_label_values by auto
  have sum: "?b + length (filter (\<lambda>c. c = Str ''WITHIN_SLA'') ?st) = len df'"
    using sla_label_counts[of m] lm by simp
  let ?order = "reorder (map (\<lambda>g. Some (breach_pct (group_breaches t ?st g) (group_total t g)))
                       (group_keys t)) (group_keys t)"
  obtain ps where ps: "priority_summary df' = Inr ps"
    and bp: "getitem ps ''breach_pct'' = Inr (map (\<lambda>g. Num (group_pct k ?st g)) (group_keys k))"
    using priority_summary_eq[OF k nk st h hs lk] by (simp add: getitem_def pct)
  obtain ts where ts: "team_summary df' = Inr ts"
    and bt: "getitem ts ''breach_pct'' = Inr (map (\<lambda>g. Num (group_pct t ?st g)) ?order)"
    using team_summary_eq[OF t nt st lt] by (simp add: getitem_def pct)
  have bl: "len (filter_rows (map is_breach ?st) df') = ?b"
    by (rule breaches_len) (simp add: lm)
  have run': "analyze_sla_breaches r w =
     (Inr (), say [banner, Text ''SLA BREACH ANALYSIS - Healthcare Cases'', Text rule60,
                   Fmt ''  Total Cases  : {:,}'' [Inum (int (len df'))],
                   Fmt ''  SLA Breaches : {:,} ({:.1f}%)''
                     [Inum (int ?b), Num (real ?b / real (len df') * 100)],
                   Text (CHR 0x0A # ''  Breach Rate by Priority:''),
                   Frame True ps,
                   Text (CHR 0x0A # ''  Breach Rate by Team:''),
                   Frame True ts] w)"
    using sla_run[OF r ps[folded at] ts[folded at] st[folded at] rows[folded at]]
    unfolding at bl .
  have o1: "Fmt ''  Total Cases  : {:,}'' [Inum (int (len df'))]
      \<in> set (stdout (snd (analyze_sla_breaches r w)))"
    and o2: "Fmt ''  SLA Breaches : {:,} ({:.1f}%)''
          [Inum (int ?b), Num (real ?b / real (len df') * 100)]
      \<in> set (stdout (snd (analyze_sla_breaches r w)))"
    unfolding run' by (simp_all add: say_simps)
  have ok: "analyze_sla_breaches r w = (Inr (), snd (analyze_sla_breaches r w))"
    unfolding run' by simp
  have bounds: "\<forall>c \<in> set (map (\<lambda>g. Num (group_pct k ?st g)) (group_keys k))
         \<union> set (map (\<lambda>g. Num (group_pct t ?st g)) ?order).
       \<exists>x. c = Num x \<and> 0 \<le> x \<and> x \<le> 100"
    using group_pct_bounds by auto
  from st two sum ok o1 o2 ps bp ts bt bounds show ?thesis
    by blast
qed
theorem sla_status_is_one_of_two_witness:
  "add_sla_columns hc0 = Inr hc1 \<and> Suc 0 < length (heap world0) \<and> heap world0 ! Suc 0 = hc1
   \<and> wf hc1 \<and> 0 < len hc1
   \<and> getitem hc1 ''priority'' = Inr [Str ''P1'', Str ''P2'', Str ''P3'']
   \<and> group_keys [Str ''P1'', Str ''P2'', Str ''P3''] \<noteq> []
   \<and> getitem hc1 ''assigned_team'' = Inr [Str ''Team_Alpha'', Null, Str ''Team_Beta'']
   \<and> group_keys [Str ''Team_Alpha'', Null, Str ''Team_Beta''] \<noteq> []
   \<and> getitem hc1 ''resolution_hours'' = Inr [Inum 5, Inum 24, Inum 10]
   \<and> floats [Inum 5, Inum 24, Inum 10] = Inr [Some 5, Some 24, Some 10]
   \<and> (\<exists>st w'. getitem hc1 ''sla_status'' = Inr st
         \<and> length (filter (\<lambda>c. c = Str ''SLA_BREACH'') st)
             + length (filter (\<lambda>c. c = Str ''WITHIN_SLA'') st) = 3
         \<and> analyze_sla_breaches (Suc 0) world0 = (Inr (), w')
         \<and> Fmt ''  Total Cases  : {:,}'' [Inum 3] \<in> set (stdout w'))"
proof -
  have at: "heap world0 ! Suc 0 = hc1"
    by (simp add: world0_def)
  have l: "len hc1 = 3"
    by (simp add: len_def hc1_def hc0_def)
  have nk: "group_keys [Str ''P1'', Str ''P2'', Str ''P3''] \<noteq> []"
    and nt: "group_keys [Str ''Team_Alpha'', Null, Str ''Team_Beta''] \<noteq> []"
    by (simp_all add: hc1_keys)
  have hs: "floats [Inum 5, Inum 24, Inum 10] = Inr [Some 5, Some 24, Some 10]"
    by (simp add: bind_e_def)
  note shape = hc1_shape[unfolded at]
  note cols = hc1_columns[unfolded at]
  from sla_status_is_one_of_two[OF hc0_run shape(3) at shape(1,2) cols(1) nk cols(2) nt cols(4) hs]
  obtain st w' where "getitem hc1 ''sla_status'' = Inr st"
    "length (filter (\<lambda>c. c = Str ''SLA_BREACH'') st)
        + length (filter (\<lambda>c. c = Str ''WITHIN_SLA'') st) = len hc1"
    "analyze_sla_breaches (Suc 0) world0 = (Inr (), w')"
    "Fmt ''  Total Cases  : {:,}'' [Inum (int (len hc1))] \<in> set (stdout w')"
    by blast
  then have "\<exists>st w'. getitem hc1 ''sla_status'' = Inr st
         \<and> length (filter (\<lambda>c. c = Str ''SLA_BREACH'') st)
             + length (filter (\<lambda>c. c = Str ''WITHIN_SLA'') st) = 3
         \<and> analyze_sla_breaches (Suc 0) world0 = (Inr (), w')
         \<and> Fmt ''  Total Cases  : {:,}'' [Inum 3] \<in> set (stdout w')"
    unfolding l by auto
  with hc0_run shape at cols nk nt hs show ?thesis
    by (intro conjI)
qed

subsection \<open>Runs that complete\<close>










end
